theory Spec2Isabelle
  imports Main "HOL-Library.Word"
begin

section \<open>JavaScript strings\<close>

text \<open>
  A JavaScript string is a sequence of 16-bit code units. The text fields, the response
  bodies and the generated markup are all such sequences; \<open>js\<close> embeds an ASCII
  literal of the source.
\<close>

type_synonym code_unit = "16 word"
type_synonym jsstring = "code_unit list"

definition js :: "string \<Rightarrow> jsstring" where
  "js s = map (\<lambda>c. of_nat (of_char c)) s"

text \<open>\<open>s.includes(t)\<close>: \<open>t\<close> occurs in \<open>s\<close> as a contiguous run.\<close>

fun starts_with :: "jsstring \<Rightarrow> jsstring \<Rightarrow> bool" where
  "starts_with s [] = True"
| "starts_with [] (t # ts) = False"
| "starts_with (c # cs) (t # ts) = (c = t \<and> starts_with cs ts)"

fun includes_str :: "jsstring \<Rightarrow> jsstring \<Rightarrow> bool" where
  "includes_str [] t = (t = [])"
| "includes_str (c # cs) t = (starts_with (c # cs) t \<or> includes_str cs t)"

text \<open>
  White space and line terminators of ECMAScript, the code units \<open>trim\<close> and
  \<open>parseInt\<close> strip.
\<close>

definition is_white :: "code_unit \<Rightarrow> bool" where
  "is_white c \<longleftrightarrow>
     c = 0x09 \<or> c = 0x0A \<or> c = 0x0B \<or> c = 0x0C \<or> c = 0x0D \<or> c = 0x20 \<or> c = 0xA0 \<or>
     c = 0x1680 \<or> (0x2000 \<le> c \<and> c \<le> 0x200A) \<or> c = 0x2028 \<or> c = 0x2029 \<or>
     c = 0x202F \<or> c = 0x205F \<or> c = 0x3000 \<or> c = 0xFEFF"

definition trim :: "jsstring \<Rightarrow> jsstring" where
  "trim s = rev (dropWhile is_white (rev (dropWhile is_white s)))"

text \<open>
  A regular expression \<open>/c/g\<close> of one literal character, given to \<open>replace\<close>:
  every occurrence of \<open>c\<close> becomes \<open>t\<close>.
\<close>

definition replace_all :: "code_unit \<Rightarrow> jsstring \<Rightarrow> jsstring \<Rightarrow> jsstring" where
  "replace_all c t s = concat (map (\<lambda>x. if x = c then t else [x]) s)"

section \<open>Numbers\<close>

text \<open>
  The numbers of this program are counters, HTTP status codes and the result limit.
  They are modelled as integers, which is what a double holds exactly below \<open>2^53\<close>;
  fractions and the exponent notation of larger magnitudes are outside the model.
\<close>

fun digits_of :: "nat \<Rightarrow> jsstring" where
  "digits_of n =
     (if n < 10 then [of_nat (48 + n)]
      else digits_of (n div 10) @ [of_nat (48 + n mod 10)])"

declare digits_of.simps [simp del]

definition Number_toString :: "int \<Rightarrow> jsstring" where
  "Number_toString n = (if n < 0 then 0x2D # digits_of (nat (- n)) else digits_of (nat n))"

text \<open>
  \<open>parseInt(s)\<close> without a radix: leading white space is skipped, one sign is read,
  a \<open>0x\<close> prefix selects base 16, and the longest run of digits is the value.
  \<open>None\<close> is \<open>NaN\<close>, the result when there is no digit.
\<close>

definition digit_value :: "code_unit \<Rightarrow> nat option" where
  "digit_value c =
     (if 0x30 \<le> c \<and> c \<le> 0x39 then Some (unat c - 48)
      else if 0x61 \<le> c \<and> c \<le> 0x7A then Some (unat c - 87)
      else if 0x41 \<le> c \<and> c \<le> 0x5A then Some (unat c - 55)
      else None)"

definition is_radix_digit :: "nat \<Rightarrow> code_unit \<Rightarrow> bool" where
  "is_radix_digit R c = (case digit_value c of None \<Rightarrow> False | Some d \<Rightarrow> d < R)"

definition radix_value :: "nat \<Rightarrow> jsstring \<Rightarrow> nat" where
  "radix_value R Z = foldl (\<lambda>acc c. acc * R + (case digit_value c of None \<Rightarrow> 0 | Some d \<Rightarrow> d)) 0 Z"

definition parseInt :: "jsstring \<Rightarrow> int option" where
  "parseInt inputString =
     (let S = dropWhile is_white inputString;
          sign = (case S of [] \<Rightarrow> 1 | c # _ \<Rightarrow> if c = 0x2D then - 1 else (1::int));
          S1 = (case S of [] \<Rightarrow> S | c # cs \<Rightarrow> if c = 0x2B \<or> c = 0x2D then cs else S);
          hex = (case S1 of a # b # _ \<Rightarrow> a = 0x30 \<and> (b = 0x78 \<or> b = 0x58) | _ \<Rightarrow> False);
          R = (if hex then 16 else 10);
          S2 = (if hex then drop 2 S1 else S1);
          Z = takeWhile (is_radix_digit R) S2
      in if Z = [] then None else Some (sign * int (radix_value R Z)))"

text \<open>
  \<open>parseInt(limitSelect.value) || 50\<close> (searchByMachine, searchByLocation):
  \<open>NaN\<close> and zero are the falsy numbers.
\<close>

definition limit_of :: "jsstring \<Rightarrow> int" where
  "limit_of v = (case parseInt v of None \<Rightarrow> 50 | Some n \<Rightarrow> if n = 0 then 50 else n)"

section \<open>Errors\<close>

text \<open>
  An exception is an error object with a class and a message. \<open>Error\<close> is what the
  program throws itself; the others are thrown by the platform, and their messages
  are the platform's.
\<close>

datatype error =
    Error jsstring
  | TypeError jsstring
  | SyntaxError jsstring
  | URIError jsstring
  | DOMException jsstring

fun message :: "error \<Rightarrow> jsstring" where
  "message (Error m) = m"
| "message (TypeError m) = m"
| "message (SyntaxError m) = m"
| "message (URIError m) = m"
| "message (DOMException m) = m"

section \<open>encodeURIComponent\<close>

text \<open>
  The characters left as they are: letters, digits and \<open>- _ . ! ~ * ' ( )\<close>.
\<close>

definition unescaped :: "code_unit \<Rightarrow> bool" where
  "unescaped c \<longleftrightarrow>
     (0x41 \<le> c \<and> c \<le> 0x5A) \<or> (0x61 \<le> c \<and> c \<le> 0x7A) \<or> (0x30 \<le> c \<and> c \<le> 0x39) \<or>
     c = 0x2D \<or> c = 0x5F \<or> c = 0x2E \<or> c = 0x21 \<or> c = 0x7E \<or> c = 0x2A \<or>
     c = 0x27 \<or> c = 0x28 \<or> c = 0x29"

definition is_lead :: "code_unit \<Rightarrow> bool" where
  "is_lead c \<longleftrightarrow> 0xD800 \<le> c \<and> c \<le> 0xDBFF"

definition is_trail :: "code_unit \<Rightarrow> bool" where
  "is_trail c \<longleftrightarrow> 0xDC00 \<le> c \<and> c \<le> 0xDFFF"

definition pair_to_code_point :: "code_unit \<Rightarrow> code_unit \<Rightarrow> nat" where
  "pair_to_code_point lead trail = (unat lead - 0xD800) * 0x400 + (unat trail - 0xDC00) + 0x10000"

definition utf8 :: "nat \<Rightarrow> nat list" where
  "utf8 cp =
     (if cp < 0x80 then [cp]
      else if cp < 0x800 then [0xC0 + cp div 0x40, 0x80 + cp mod 0x40]
      else if cp < 0x10000 then
        [0xE0 + cp div 0x1000, 0x80 + (cp div 0x40) mod 0x40, 0x80 + cp mod 0x40]
      else
        [0xF0 + cp div 0x40000, 0x80 + (cp div 0x1000) mod 0x40,
         0x80 + (cp div 0x40) mod 0x40, 0x80 + cp mod 0x40])"

definition hex_digit :: "nat \<Rightarrow> code_unit" where
  "hex_digit d = (if d < 10 then of_nat (48 + d) else of_nat (55 + d))"

definition percent :: "nat \<Rightarrow> jsstring" where
  "percent octet = [0x25, hex_digit (octet div 16), hex_digit (octet mod 16)]"

definition percent_utf8 :: "nat \<Rightarrow> jsstring" where
  "percent_utf8 cp = concat (map percent (utf8 cp))"

definition uri_malformed :: error where
  "uri_malformed = URIError (js ''URI malformed'')"

definition followed_by :: "jsstring \<Rightarrow> error + jsstring \<Rightarrow> error + jsstring" where
  "followed_by s r = (case r of Inl e \<Rightarrow> Inl e | Inr t \<Rightarrow> Inr (s @ t))"

text \<open>
  The string is read code point by code point; a surrogate without its partner
  makes the whole call throw \<open>URIError\<close>.
\<close>

fun encodeURIComponent :: "jsstring \<Rightarrow> error + jsstring" where
  "encodeURIComponent [] = Inr []"
| "encodeURIComponent [C] =
     (if unescaped C then Inr [C]
      else if is_lead C \<or> is_trail C then Inl uri_malformed
      else Inr (percent_utf8 (unat C)))"
| "encodeURIComponent (C # D # S) =
     (if unescaped C then followed_by [C] (encodeURIComponent (D # S))
      else if is_trail C then Inl uri_malformed
      else if is_lead C then
        (if is_trail D then
           followed_by (percent_utf8 (pair_to_code_point C D)) (encodeURIComponent S)
         else Inl uri_malformed)
      else followed_by (percent_utf8 (unat C)) (encodeURIComponent (D # S)))"

section \<open>Values\<close>

text \<open>
  What \<open>JSON.parse\<close> and \<open>res.json()\<close> produce. An object lists its own
  properties, each key once. A missing property reads as \<open>undefined\<close>, here
  \<open>None\<close>.
\<close>

datatype json =
    JNull
  | JBool bool
  | JNumber int
  | JString jsstring
  | JArray "json list"
  | JObject "(jsstring \<times> json) list"

text \<open>
  Reading a property of a parsed object by a computed key can also reach what the
  object inherits: a built-in function, or \<open>Object.prototype\<close> itself.
\<close>

datatype jsval =
    Undefined
  | Json json
  | HostFunction jsstring
  | ObjectPrototype

fun truthy :: "json \<Rightarrow> bool" where
  "truthy JNull = False"
| "truthy (JBool b) = b"
| "truthy (JNumber n) = (n \<noteq> 0)"
| "truthy (JString s) = (s \<noteq> [])"
| "truthy (JArray xs) = True"
| "truthy (JObject kvs) = True"

definition cannot_convert :: error where
  "cannot_convert = TypeError (js ''Cannot convert object to primitive value'')"

text \<open>
  Conversion to a string, as a template literal, \<open>String(v)\<close> and \<open>new Error(v)\<close>
  perform it. An array joins its elements with commas, \<open>null\<close> elements being empty.
  A plain object gives \<open>[object Object]\<close> through the inherited \<open>toString\<close>; an
  own property of that name hides the inherited function and is not callable, so the
  conversion throws.
\<close>

fun ToString :: "json \<Rightarrow> error + jsstring"
  and join_elements :: "json list \<Rightarrow> error + jsstring" where
  "ToString JNull = Inr (js ''null'')"
| "ToString (JBool b) = Inr (if b then js ''true'' else js ''false'')"
| "ToString (JNumber n) = Inr (Number_toString n)"
| "ToString (JString s) = Inr s"
| "ToString (JArray xs) = join_elements xs"
| "ToString (JObject kvs) =
     (case map_of kvs (js ''toString'') of
        Some v \<Rightarrow> Inl cannot_convert
      | None \<Rightarrow> Inr (js ''[object Object]''))"
| "join_elements [] = Inr []"
| "join_elements [x] = (case x of JNull \<Rightarrow> Inr [] | _ \<Rightarrow> ToString x)"
| "join_elements (x # y # ys) =
     (case (case x of JNull \<Rightarrow> Inr [] | _ \<Rightarrow> ToString x) of
        Inl e \<Rightarrow> Inl e
      | Inr s \<Rightarrow> followed_by (s @ js '','') (join_elements (y # ys)))"

text \<open>\<open>`${v}`\<close> for a property that may be missing.\<close>

definition template :: "json option \<Rightarrow> error + jsstring" where
  "template v = (case v of None \<Rightarrow> Inr (js ''undefined'') | Some j \<Rightarrow> ToString j)"

text \<open>
  \<open>j.detail\<close>, \<open>data.columns\<close>, \<open>data.rows\<close>, \<open>data.matched_rows\<close>: a
  property read with a fixed name that no built-in prototype defines. On \<open>null\<close>
  it throws; on an object it is the own property; on any other value it is
  \<open>undefined\<close>.
\<close>

definition field :: "json \<Rightarrow> string \<Rightarrow> error + json option" where
  "field v name =
     (case v of
        JNull \<Rightarrow>
          Inl (TypeError (js ''Cannot read properties of null (reading '' @ [0x27] @ js name
                          @ [0x27] @ js '')''))
      | JObject kvs \<Rightarrow> Inr (map_of kvs (js name))
      | _ \<Rightarrow> Inr None)"

text \<open>\<open>rows.length\<close>, for the value \<open>data.rows || []\<close>.\<close>

definition length_of :: "json \<Rightarrow> json option" where
  "length_of v =
     (case v of
        JArray xs \<Rightarrow> Some (JNumber (int (length xs)))
      | JString s \<Rightarrow> Some (JNumber (int (length s)))
      | JObject kvs \<Rightarrow> map_of kvs (js ''length'')
      | _ \<Rightarrow> None)"

text \<open>What a plain object inherits from \<open>Object.prototype\<close>.\<close>

definition object_prototype_member :: "jsstring \<Rightarrow> jsval" where
  "object_prototype_member k =
     (if k = js ''constructor'' then HostFunction (js ''Object'')
      else if k \<in> set (map js [''hasOwnProperty'', ''isPrototypeOf'', ''propertyIsEnumerable'',
                ''toLocaleString'', ''toString'', ''valueOf'', ''__defineGetter__'',
                ''__defineSetter__'', ''__lookupGetter__'', ''__lookupSetter__''])
      then HostFunction k
      else if k = js ''__proto__'' then ObjectPrototype
      else Undefined)"

text \<open>
  The platform: the JSON parser and serialiser, and the properties of arrays, strings,
  numbers and booleans (their prototypes differ between engines and versions).
\<close>

record host =
  JSON_parse :: "jsstring \<Rightarrow> error + json"
  JSON_stringify :: "json \<Rightarrow> jsstring"
  JSON_stringify_indented :: "json option \<Rightarrow> jsstring"
  primitive_member :: "json \<Rightarrow> jsstring \<Rightarrow> jsval"

text \<open>\<open>r[c]\<close> in renderTable: the key is the column converted to a string.\<close>

definition element :: "host \<Rightarrow> json \<Rightarrow> json \<Rightarrow> error + jsval" where
  "element h r c =
     (case r of
        JNull \<Rightarrow> Inl (TypeError (js ''Cannot read properties of null''))
      | JObject kvs \<Rightarrow>
          (case ToString c of
             Inl e \<Rightarrow> Inl e
           | Inr k \<Rightarrow>
               (case map_of kvs k of
                  Some v \<Rightarrow> Inr (Json v)
                | None \<Rightarrow> Inr (object_prototype_member k)))
      | _ \<Rightarrow>
          (case ToString c of
             Inl e \<Rightarrow> Inl e
           | Inr k \<Rightarrow> Inr (primitive_member h r k)))"

section \<open>escapeHtml\<close>

text \<open>\<open>String(v ?? "")\<close>: \<open>null\<close> and \<open>undefined\<close> become the empty string.\<close>

definition String_or_empty :: "jsval \<Rightarrow> error + jsstring" where
  "String_or_empty v =
     (case v of
        Undefined \<Rightarrow> Inr []
      | Json JNull \<Rightarrow> Inr []
      | Json j \<Rightarrow> ToString j
      | HostFunction name \<Rightarrow> Inr (js ''function '' @ name @ js ''() { [native code] }'')
      | ObjectPrototype \<Rightarrow> Inr (js ''[object Object]''))"

definition escape_text :: "jsstring \<Rightarrow> jsstring" where
  "escape_text s =
     replace_all 0x3E (js ''&gt;'') (replace_all 0x3C (js ''&lt;'') (replace_all 0x26 (js ''&amp;'') s))"

definition escapeHtml :: "jsval \<Rightarrow> error + jsstring" where
  "escapeHtml v = (case String_or_empty v of Inl e \<Rightarrow> Inl e | Inr s \<Rightarrow> Inr (escape_text s))"

definition of_option :: "json option \<Rightarrow> jsval" where
  "of_option v = (case v of None \<Rightarrow> Undefined | Some j \<Rightarrow> Json j)"

section \<open>HTTP responses and the network\<close>

text \<open>
  A response as the program reads it: the status, the \<open>content-type\<close> header
  (\<open>None\<close> when \<open>headers.get\<close> returns \<open>null\<close>) and the result of reading
  the body, which is its text or the error the read rejects with.
\<close>

record response =
  status :: nat
  content_type :: "jsstring option"
  body :: "error + jsstring"

definition ok :: "response \<Rightarrow> bool" where
  "ok r \<longleftrightarrow> 200 \<le> status r \<and> status r \<le> 299"

record request_init =
  credentials :: "jsstring option"
  accept :: "jsstring option"
  cache :: "jsstring option"
  redirect :: "jsstring option"

text \<open>
  What an operation does to the outside: requests, timer waits (milliseconds),
  file downloads (name and content) and clipboard writes, in the order they happen.
\<close>

datatype effect =
    Fetch jsstring request_init
  | Timeout nat
  | Download jsstring jsstring
  | ClipboardWrite jsstring

text \<open>
  The network answers the \<open>n\<close>-th call of \<open>fetch\<close> within one operation either
  with a response or by rejecting.
\<close>

type_synonym network = "nat \<Rightarrow> error + response"

definition res_json :: "host \<Rightarrow> response \<Rightarrow> error + json" where
  "res_json h r = (case body r of Inl e \<Rightarrow> Inl e | Inr t \<Rightarrow> JSON_parse h t)"

definition header_or_empty :: "response \<Rightarrow> jsstring" where
  "header_or_empty r = (case content_type r of None \<Rightarrow> [] | Some c \<Rightarrow> c)"

definition new_Error :: "json \<Rightarrow> error" where
  "new_Error v = (case ToString v of Inl e \<Rightarrow> e | Inr m \<Rightarrow> Error m)"

text \<open>
  The branch \<open>if (!res.ok) { ... }\<close>, the same text in \<open>fetchJson\<close> of
  static/script.js and in \<open>attempt\<close> of the retrying script: the value of
  \<open>msg\<close> after the \<open>try\<close>, and the error thrown.
\<close>

definition http_status_text :: "response \<Rightarrow> json" where
  "http_status_text r = JString (js ''HTTP '' @ Number_toString (int (status r)))"

definition failure_msg :: "host \<Rightarrow> response \<Rightarrow> jsstring \<Rightarrow> json" where
  "failure_msg h r ct =
     (if includes_str ct (js ''application/json'') then
        (case res_json h r of
           Inl e \<Rightarrow> http_status_text r
         | Inr j \<Rightarrow>
             (case field j ''detail'' of
                Inl e \<Rightarrow> http_status_text r
              | Inr None \<Rightarrow> JString (JSON_stringify h j)
              | Inr (Some d) \<Rightarrow> if truthy d then d else JString (JSON_stringify h j)))
      else
        (case body r of
           Inl e \<Rightarrow> http_status_text r
         | Inr t \<Rightarrow> JString t))"

definition failure :: "host \<Rightarrow> response \<Rightarrow> jsstring \<Rightarrow> error" where
  "failure h r ct =
     (let msg = failure_msg h r ct
      in new_Error (if truthy msg then msg else JString (js ''Request failed'')))"

definition non_json :: "jsstring \<Rightarrow> error" where
  "non_json text = Error (if text = [] then js ''Non-JSON response received'' else text)"

subsection \<open>fetchJson of static/script.js\<close>

definition script_init :: request_init where
  "script_init = \<lparr>credentials = Some (js ''include''), accept = Some (js ''application/json''),
                   cache = Some (js ''no-store''), redirect = None\<rparr>"

definition fetchJson :: "host \<Rightarrow> network \<Rightarrow> jsstring \<Rightarrow> (error + json) \<times> effect list" where
  "fetchJson h net url =
     (case net 0 of
        Inl e \<Rightarrow> (Inl e, [Fetch url script_init])
      | Inr res \<Rightarrow>
          (let ct = header_or_empty res
           in (if \<not> ok res then Inl (failure h res ct)
               else if status res = 204 then Inr (JObject [])
               else if \<not> includes_str ct (js ''application/json'') then
                 (case body res of Inl e \<Rightarrow> Inl e | Inr text \<Rightarrow> Inl (non_json text))
               else res_json h res,
               [Fetch url script_init])))"

subsection \<open>fetchJson with retry (the script that starts in boot)\<close>

definition attempt :: "host \<Rightarrow> response \<Rightarrow> error + json" where
  "attempt h r =
     (let ct = header_or_empty r
      in if \<not> ok r then Inl (failure h r ct)
         else
           (case body r of
              Inl e \<Rightarrow> Inl e
            | Inr text \<Rightarrow>
                if \<not> includes_str ct (js ''application/json'') then Inl (non_json text)
                else if text = [] \<or> trim text = [] then
                  Inl (Error (js ''Empty response from server''))
                else JSON_parse h text))"

definition boot_init :: request_init where
  "boot_init = \<lparr>credentials = Some (js ''include''), accept = Some (js ''application/json''),
                 cache = Some (js ''no-store''), redirect = Some (js ''follow'')\<rparr>"

definition absolute :: "jsstring \<Rightarrow> jsstring \<Rightarrow> jsstring" where
  "absolute origin url = origin @ (if starts_with url (js ''/'') then url else js ''/'' @ url)"

definition fetchJson_retry ::
  "host \<Rightarrow> network \<Rightarrow> jsstring \<Rightarrow> jsstring \<Rightarrow> (error + json) \<times> effect list" where
  "fetchJson_retry h net origin url =
     (let abs = absolute origin url
      in case net 0 of
           Inl e \<Rightarrow> (Inl e, [Fetch abs boot_init])
         | Inr res \<Rightarrow>
             (case attempt h res of
                Inr j \<Rightarrow> (Inr j, [Fetch abs boot_init])
              | Inl e \<Rightarrow>
                  (case net 1 of
                     Inl e' \<Rightarrow> (Inl e', [Fetch abs boot_init, Timeout 250, Fetch abs boot_init])
                   | Inr res' \<Rightarrow>
                       (attempt h res',
                        [Fetch abs boot_init, Timeout 250, Fetch abs boot_init]))))"

section \<open>The page of static/script.js\<close>

datatype search_type = machine | location

record search =
  search_type :: search_type
  search_value :: jsstring

text \<open>
  The two variables of the script and the parts of the document it writes. A toast is
  recorded when raised (type and text); its removal after three seconds is not modelled.
\<close>

record ui =
  lastSearch :: "search option"
  lastResult :: "json option"
  downloadBtn_disabled :: bool
  copyJsonBtn_disabled :: bool
  outputBox :: jsstring
  matchedPill :: jsstring
  returnedPill :: jsstring
  statusText :: jsstring
  toasts :: "(jsstring \<times> jsstring) list"

definition toast :: "jsstring \<Rightarrow> jsstring \<Rightarrow> ui \<Rightarrow> ui" where
  "toast type msg u = u\<lparr>toasts := toasts u @ [(type, msg)]\<rparr>"

definition hint_html :: jsstring where
  \<open>hint_html = [0x0A] @ js ''<div class="hint">'' @ [0x0A] @
     js ''  Results will appear here.<br/>'' @ [0x0A] @
     js ''  This UI calls your backend and renders JSON.'' @ [0x0A] @ js ''</div>''\<close>

definition showHint :: "ui \<Rightarrow> ui" where
  "showHint u = u\<lparr>lastResult := None, lastSearch := None,
     downloadBtn_disabled := True, copyJsonBtn_disabled := True,
     outputBox := hint_html,
     matchedPill := js ''Matched: 0'', returnedPill := js ''Returned: 0'',
     statusText := js ''Ready.''\<rparr>"

text \<open>
  \<open>showError\<close> and \<open>showLoading\<close> receive strings, on which \<open>escapeHtml\<close> is
  the replacement of the three characters.
\<close>

definition showError :: "jsstring \<Rightarrow> ui \<Rightarrow> ui" where
  \<open>showError msg u =
     toast (js ''error'') msg
       (u\<lparr>outputBox := js ''<div class="error">'' @ escape_text msg @ js ''</div>'',
          statusText := js ''Error!''\<rparr>)\<close>

definition showLoading :: "jsstring \<Rightarrow> ui \<Rightarrow> ui" where
  \<open>showLoading msg u =
     u\<lparr>outputBox := js ''<div class="loading">'' @ [0x0A] @
          js ''      <div class="spinner"></div> '' @ escape_text msg @ [0x0A] @ js ''    </div>'',
       statusText := msg\<rparr>\<close>

subsection \<open>renderTable\<close>

text \<open>\<open>data.columns || []\<close> and \<open>data.rows || []\<close>.\<close>

definition or_empty :: "json option \<Rightarrow> json" where
  "or_empty v = (case v of None \<Rightarrow> JArray [] | Some j \<Rightarrow> if truthy j then j else JArray [])"

text \<open>
  \<open>cols.map(c => `<th>${escapeHtml(c)}</th>`).join("")\<close>, for the elements of an
  array; on any other value \<open>cols.map\<close> is not a function.
\<close>

fun header_cells :: "json list \<Rightarrow> error + jsstring" where
  "header_cells [] = Inr []"
| "header_cells (c # cs) =
     (case escapeHtml (Json c) of
        Inl e \<Rightarrow> Inl e
      | Inr t \<Rightarrow> followed_by (js ''<th>'' @ t @ js ''</th>'') (header_cells cs))"

text \<open>The inner loop \<open>for (const c of cols)\<close> for one row \<open>r\<close>.\<close>

fun row_cells :: "host \<Rightarrow> json \<Rightarrow> json list \<Rightarrow> error + jsstring" where
  "row_cells h r [] = Inr []"
| "row_cells h r (c # cs) =
     (case element h r c of
        Inl e \<Rightarrow> Inl e
      | Inr v \<Rightarrow>
          (case escapeHtml v of
             Inl e \<Rightarrow> Inl e
           | Inr t \<Rightarrow> followed_by (js ''<td>'' @ t @ js ''</td>'') (row_cells h r cs)))"

text \<open>The outer loop \<open>for (const r of rows)\<close> over the values iterated.\<close>

fun body_rows :: "host \<Rightarrow> json list \<Rightarrow> json list \<Rightarrow> error + jsstring" where
  "body_rows h cs [] = Inr []"
| "body_rows h cs (r # rs) =
     (case row_cells h r cs of
        Inl e \<Rightarrow> Inl e
      | Inr t \<Rightarrow> followed_by (js ''<tr>'' @ t @ js ''</tr>'') (body_rows h cs rs))"

text \<open>Iterating a string yields its code points, each as a string.\<close>

fun code_points :: "jsstring \<Rightarrow> jsstring list" where
  "code_points [] = []"
| "code_points [c] = [[c]]"
| "code_points (c # d # s) =
     (if is_lead c \<and> is_trail d then [c, d] # code_points s else [c] # code_points (d # s))"

definition iterate :: "json \<Rightarrow> error + json list" where
  "iterate rows =
     (case rows of
        JArray rs \<Rightarrow> Inr rs
      | JString s \<Rightarrow> Inr (map JString (code_points s))
      | _ \<Rightarrow> Inl (TypeError (js ''rows is not iterable'')))"

definition result_meta :: "jsstring \<Rightarrow> jsstring \<Rightarrow> jsstring" where
  \<open>result_meta m n =
     js ''<div class="result-meta">'' @ [0x0A] @ js ''      Matched: <b>'' @ m @ js ''</b> '' @
     [0xE2, 0x20AC, 0xA2] @ [0x0A] @ js ''      Returned: <b>'' @ n @ js ''</b>'' @ [0x0A] @
     js ''    </div>''\<close>

definition table_open :: jsstring where
  \<open>table_open = js ''<div class="result-table-wrap"><table class="result-table"><thead><tr>''\<close>

text \<open>The string \<open>html\<close> built by renderTable.\<close>

definition table_html :: "host \<Rightarrow> json option \<Rightarrow> json \<Rightarrow> json \<Rightarrow> error + jsstring" where
  "table_html h matched cols rows =
     (case escapeHtml (of_option matched) of
        Inl e \<Rightarrow> Inl e
      | Inr m \<Rightarrow>
     (case escapeHtml (of_option (length_of rows)) of
        Inl e \<Rightarrow> Inl e
      | Inr n \<Rightarrow>
     (case cols of
        JArray cs \<Rightarrow>
          (case header_cells cs of
             Inl e \<Rightarrow> Inl e
           | Inr hs \<Rightarrow>
          (case iterate rows of
             Inl e \<Rightarrow> Inl e
           | Inr rs \<Rightarrow>
          (case body_rows h cs rs of
             Inl e \<Rightarrow> Inl e
           | Inr bs \<Rightarrow>
               Inr (result_meta m n @ table_open @ hs @ js ''</tr></thead><tbody>'' @ bs @
                    js ''</tbody></table></div>''))))
      | _ \<Rightarrow> Inl (TypeError (js ''cols.map is not a function'')))))"

text \<open>
  renderTable returns the state it leaves behind together with the exception that
  interrupted it, if any: the assignments made before the throw stay.
\<close>

definition renderTable :: "host \<Rightarrow> json \<Rightarrow> ui \<Rightarrow> (error + unit) \<times> ui" where
  "renderTable h data u =
     (case field data ''columns'' of
        Inl e \<Rightarrow> (Inl e, u)
      | Inr columns \<Rightarrow>
     (case field data ''rows'' of
        Inl e \<Rightarrow> (Inl e, u)
      | Inr rws \<Rightarrow>
     (let cols = or_empty columns;
          rows = or_empty rws;
          u1 = u\<lparr>lastResult := Some data\<rparr>
      in
     (case field data ''matched_rows'' of
        Inl e \<Rightarrow> (Inl e, u1)
      | Inr matched \<Rightarrow>
     (case template matched of
        Inl e \<Rightarrow> (Inl e, u1)
      | Inr m \<Rightarrow>
     (let u2 = u1\<lparr>matchedPill := js ''Matched: '' @ m\<rparr>
      in
     (case template (length_of rows) of
        Inl e \<Rightarrow> (Inl e, u2)
      | Inr n \<Rightarrow>
     (let u3 = u2\<lparr>returnedPill := js ''Returned: '' @ n,
                    downloadBtn_disabled := False, copyJsonBtn_disabled := False\<rparr>
      in
     (case table_html h matched cols rows of
        Inl e \<Rightarrow> (Inl e, u3)
      | Inr html \<Rightarrow>
          (Inr (), u3\<lparr>outputBox := html, statusText := js ''Loaded results.''\<rparr>))))))))))"

subsection \<open>The handlers\<close>

text \<open>
  Each handler takes the values of the form fields it reads and the network that
  answers it, and returns the new state with the effects it had. An exception inside
  \<open>try\<close> ends in \<open>showError(e.message)\<close>.
\<close>

definition searchByMachine ::
  "host \<Rightarrow> network \<Rightarrow> jsstring \<Rightarrow> jsstring \<Rightarrow> ui \<Rightarrow> ui \<times> effect list" where
  "searchByMachine h net machineInput_value limitSelect_value u =
     (let v = trim machineInput_value
      in if v = [] then (showError (js ''Machine ID required'') u, [])
         else
           (let u1 = showLoading (js ''Searching machine...'') u;
                limit = limit_of limitSelect_value
            in case encodeURIComponent v of
                 Inl e \<Rightarrow> (showError (message e) u1, [])
               | Inr enc \<Rightarrow>
                   (case fetchJson h net
                           (js ''/api/search/machine?machine_id='' @ enc @ js ''&limit='' @
                            Number_toString limit) of
                      (Inl e, fx) \<Rightarrow> (showError (message e) u1, fx)
                    | (Inr data, fx) \<Rightarrow>
                        (case renderTable h data
                                (u1\<lparr>lastSearch := Some \<lparr>search_type = machine, search_value = v\<rparr>\<rparr>) of
                           (Inl e, u2) \<Rightarrow> (showError (message e) u2, fx)
                         | (Inr _, u2) \<Rightarrow> (u2, fx)))))"

definition searchByLocation ::
  "host \<Rightarrow> network \<Rightarrow> jsstring \<Rightarrow> jsstring \<Rightarrow> ui \<Rightarrow> ui \<times> effect list" where
  "searchByLocation h net locationInput_value limitSelect_value u =
     (let v = trim locationInput_value
      in if v = [] then (showError (js ''Location required'') u, [])
         else
           (let u1 = showLoading (js ''Searching location...'') u;
                limit = limit_of limitSelect_value
            in case encodeURIComponent v of
                 Inl e \<Rightarrow> (showError (message e) u1, [])
               | Inr enc \<Rightarrow>
                   (case fetchJson h net
                           (js ''/api/search/location?q='' @ enc @ js ''&limit='' @
                            Number_toString limit) of
                      (Inl e, fx) \<Rightarrow> (showError (message e) u1, fx)
                    | (Inr data, fx) \<Rightarrow>
                        (case renderTable h data
                                (u1\<lparr>lastSearch := Some \<lparr>search_type = location, search_value = v\<rparr>\<rparr>) of
                           (Inl e, u2) \<Rightarrow> (showError (message e) u2, fx)
                         | (Inr _, u2) \<Rightarrow> (u2, fx)))))"

definition export_init :: request_init where
  "export_init = \<lparr>credentials = Some (js ''include''), accept = None, cache = None, redirect = None\<rparr>"

text \<open>
  downloadAllMatched builds the address outside its \<open>try\<close>: an exception of
  \<open>encodeURIComponent\<close> there ends the handler with nothing shown.
\<close>

definition downloadAllMatched :: "network \<Rightarrow> ui \<Rightarrow> ui \<times> effect list" where
  "downloadAllMatched net u =
     (case lastSearch u of
        None \<Rightarrow> (showError (js ''Search first before exporting.'') u, [])
      | Some s \<Rightarrow>
          (case encodeURIComponent (search_value s) of
             Inl e \<Rightarrow> (u, [])
           | Inr enc \<Rightarrow>
               (let url = (if search_type s = machine then js ''/api/export/machine?machine_id='' @ enc
                           else js ''/api/export/location?q='' @ enc);
                    u1 = toast (js ''success'') (js ''Preparing full CSV...'') u
                in case net 0 of
                     Inl e \<Rightarrow> (showError (message e) u1, [Fetch url export_init])
                   | Inr res \<Rightarrow>
                       (case body res of
                          Inl e \<Rightarrow> (showError (message e) u1, [Fetch url export_init])
                        | Inr content \<Rightarrow>
                            if \<not> ok res then
                              (showError (if content = []
                                          then js ''HTTP '' @ Number_toString (int (status res))
                                          else content) u1,
                               [Fetch url export_init])
                            else (u1, [Fetch url export_init, Download (js ''results.csv'') content])))))"

definition copyJson :: "host \<Rightarrow> bool \<Rightarrow> ui \<Rightarrow> ui \<times> effect list" where
  "copyJson h clipboard_allowed u =
     (case lastResult u of
        None \<Rightarrow> (u, [])
      | Some d \<Rightarrow>
          if \<not> truthy d then (u, [])
          else
            (case field d ''rows'' of
               Inl e \<Rightarrow> (toast (js ''error'') (js ''Copy failed'') u, [])
             | Inr rows \<Rightarrow>
                 if clipboard_allowed then
                   (toast (js ''success'') (js ''Copied JSON to clipboard'') u,
                    [ClipboardWrite (JSON_stringify_indented h rows)])
                 else (toast (js ''error'') (js ''Copy failed'') u, [])))"

subsection \<open>Events\<close>

text \<open>
  The bindings at the end of the script. A click on a disabled button does not reach
  its handler. The script starts with \<open>showHint()\<close> on the page as loaded.
\<close>

datatype event =
    MachineSearch jsstring jsstring network
  | LocationSearch jsstring jsstring network
  | ClearOutput
  | DownloadCsv network
  | CopyJson bool

fun fire :: "host \<Rightarrow> ui \<Rightarrow> event \<Rightarrow> ui" where
  "fire h u (MachineSearch v l net) = fst (searchByMachine h net v l u)"
| "fire h u (LocationSearch v l net) = fst (searchByLocation h net v l u)"
| "fire h u ClearOutput = showHint u"
| "fire h u (DownloadCsv net) =
     (if downloadBtn_disabled u then u else fst (downloadAllMatched net u))"
| "fire h u (CopyJson allowed) =
     (if copyJsonBtn_disabled u then u else fst (copyJson h allowed u))"

definition run :: "host \<Rightarrow> ui \<Rightarrow> event list \<Rightarrow> ui" where
  "run h page events = foldl (fire h) (showHint page) events"

section \<open>A platform for evaluation\<close>

text \<open>
  To run the model on the scenarios of the specification a parser and a serialiser are
  needed for the bodies that occur in them; nothing else is asked of this platform.
\<close>

definition body_detail :: jsstring where
  \<open>body_detail = js ''{"detail":"db unavailable"}''\<close>

definition json_detail :: json where
  "json_detail = JObject [(js ''detail'', JString (js ''db unavailable''))]"

definition body_result :: jsstring where
  \<open>body_result = js ''{"columns":["id","site"],"rows":[{"id":"M-102","site":"NY"}],"matched_rows":1}''\<close>

definition json_result :: json where
  "json_result = JObject
     [(js ''columns'', JArray [JString (js ''id''), JString (js ''site'')]),
      (js ''rows'', JArray [JObject [(js ''id'', JString (js ''M-102'')), (js ''site'', JString (js ''NY''))]]),
      (js ''matched_rows'', JNumber 1)]"

definition body_inherited :: jsstring where
  \<open>body_inherited = js ''{"columns":["id","constructor"],"rows":[{"id":"M-102"}],"matched_rows":1}''\<close>

definition json_inherited :: json where
  "json_inherited = JObject
     [(js ''columns'', JArray [JString (js ''id''), JString (js ''constructor'')]),
      (js ''rows'', JArray [JObject [(js ''id'', JString (js ''M-102''))]]),
      (js ''matched_rows'', JNumber 1)]"

definition body_odd_count :: jsstring where
  \<open>body_odd_count = js ''{"matched_rows":{"toString":0}}''\<close>

definition json_odd_count :: json where
  "json_odd_count = JObject [(js ''matched_rows'', JObject [(js ''toString'', JNumber 0)])]"

definition sample_parse :: "jsstring \<Rightarrow> error + json" where
  "sample_parse t =
     (if t = body_detail then Inr json_detail
      else if t = body_result then Inr json_result
      else if t = body_inherited then Inr json_inherited
      else if t = body_odd_count then Inr json_odd_count
      else if t = js ''{}'' then Inr (JObject [])
      else Inl (SyntaxError (js ''Unexpected token'')))"

definition sample_stringify :: "json \<Rightarrow> jsstring" where
  "sample_stringify j =
     (if j = json_detail then body_detail
      else if j = json_result then body_result
      else if j = json_inherited then body_inherited
      else if j = json_odd_count then body_odd_count
      else js ''{}'')"

definition sample_host :: host where
  "sample_host = \<lparr>JSON_parse = sample_parse, JSON_stringify = sample_stringify,
                   JSON_stringify_indented = (\<lambda>v. js ''[]''),
                   primitive_member = (\<lambda>v k. Undefined)\<rparr>"

text \<open>A page before the script has written to it.\<close>

definition empty_page :: ui where
  "empty_page = \<lparr>lastSearch = None, lastResult = None, downloadBtn_disabled = False,
                  copyJsonBtn_disabled = False, outputBox = [], matchedPill = [],
                  returnedPill = [], statusText = [], toasts = []\<rparr>"

text \<open>A network that gives the same answer to every call.\<close>

definition always :: "error + response \<Rightarrow> network" where
  "always a = (\<lambda>n. a)"

definition json_response :: "nat \<Rightarrow> jsstring \<Rightarrow> response" where
  "json_response st t = \<lparr>status = st, content_type = Some (js ''application/json''), body = Inr t\<rparr>"

definition text_response :: "nat \<Rightarrow> jsstring \<Rightarrow> response" where
  "text_response st t = \<lparr>status = st, content_type = Some (js ''text/html''), body = Inr t\<rparr>"

section \<open>Notions used in the statements\<close>

text \<open>The requests among the effects of an operation.\<close>

fun is_fetch :: "effect \<Rightarrow> bool" where
  "is_fetch (Fetch url init) = True"
| "is_fetch _ = False"

text \<open>
  A string is well formed when every surrogate is half of a pair: a lead followed by a
  trail.
\<close>

fun well_formed :: "jsstring \<Rightarrow> bool" where
  "well_formed [] = True"
| "well_formed [C] = (\<not> is_lead C \<and> \<not> is_trail C)"
| "well_formed (C # D # S) =
     (if is_lead C then is_trail D \<and> well_formed S
      else \<not> is_trail C \<and> well_formed (D # S))"

text \<open>
  A percent-encoded string consists of characters that need no escape and of
  triplets \<open>%XX\<close> with upper-case hexadecimal digits.
\<close>

definition is_hex :: "code_unit \<Rightarrow> bool" where
  "is_hex c \<longleftrightarrow> (0x30 \<le> c \<and> c \<le> 0x39) \<or> (0x41 \<le> c \<and> c \<le> 0x46)"

fun percent_encoded :: "jsstring \<Rightarrow> bool" where
  "percent_encoded [] = True"
| "percent_encoded [c] = unescaped c"
| "percent_encoded [c, a] = (unescaped c \<and> unescaped a)"
| "percent_encoded (c # a # b # s) =
     (if unescaped c then percent_encoded (a # b # s)
      else c = 0x25 \<and> is_hex a \<and> is_hex b \<and> percent_encoded s)"

text \<open>
  What \<open>escapeHtml\<close> does to one character, and the texts that cannot open a tag
  or an entity of their own: no \<open><\<close>, no \<open>>\<close>, and every \<open>&\<close> at the head
  of \<open>&amp;\<close>, \<open>&lt;\<close> or \<open>&gt;\<close>.
\<close>

definition escape_unit :: "code_unit \<Rightarrow> jsstring" where
  "escape_unit c =
     (if c = 0x26 then js ''&amp;'' else if c = 0x3C then js ''&lt;''
      else if c = 0x3E then js ''&gt;'' else [c])"

fun inert :: "jsstring \<Rightarrow> bool" where
  "inert [] = True"
| "inert (c # s) =
     (c \<noteq> 0x3C \<and> c \<noteq> 0x3E \<and>
      (c = 0x26 \<longrightarrow>
         starts_with s (js ''amp;'') \<or> starts_with s (js ''lt;'') \<or> starts_with s (js ''gt;'')) \<and>
      inert s)"

text \<open>\<open>escaped_from v t\<close>: \<open>t\<close> is the escaped string form of the value \<open>v\<close>.\<close>

definition escaped_from :: "jsval \<Rightarrow> jsstring \<Rightarrow> bool" where
  "escaped_from v t \<longleftrightarrow> (case String_or_empty v of Inl e \<Rightarrow> False | Inr s \<Rightarrow> t = escape_text s)"

text \<open>The cells and rows of the table, around texts already escaped.\<close>

definition th :: "jsstring \<Rightarrow> jsstring" where
  "th t = js ''<th>'' @ t @ js ''</th>''"

definition td :: "jsstring \<Rightarrow> jsstring" where
  "td t = js ''<td>'' @ t @ js ''</td>''"

definition tr :: "jsstring list \<Rightarrow> jsstring" where
  "tr ts = js ''<tr>'' @ concat (map td ts) @ js ''</tr>''"

text \<open>A payload whose header and cell carry markup characters.\<close>

definition json_markup :: json where
  "json_markup = JObject
     [(js ''columns'', JArray [JString (js ''a<b'')]),
      (js ''rows'', JArray [JObject [(js ''a<b'', JString (js ''x&y>z''))]]),
      (js ''matched_rows'', JNumber 1)]"

text \<open>
  Two readings of the rule for the export and copy buttons: enabled only when a result
  is held, and enabled exactly when a result is held.
\<close>

definition enabled_only_with_result :: "ui \<Rightarrow> bool" where
  "enabled_only_with_result u \<longleftrightarrow>
     (downloadBtn_disabled u \<or> lastResult u \<noteq> None) \<and>
     (copyJsonBtn_disabled u \<longleftrightarrow> downloadBtn_disabled u)"

definition enabled_iff_result :: "ui \<Rightarrow> bool" where
  "enabled_iff_result u \<longleftrightarrow>
     (downloadBtn_disabled u \<longleftrightarrow> lastResult u = None) \<and>
     (copyJsonBtn_disabled u \<longleftrightarrow> lastResult u = None)"

text \<open>
  The two counters of a payload can be formatted: converting \<open>data.matched_rows\<close>
  and \<open>rows.length\<close> to strings does not throw. \<open>answer_prints\<close> says so of the
  payload a search event receives.
\<close>

definition counters_print :: "json \<Rightarrow> bool" where
  "counters_print data \<longleftrightarrow>
     (case field data ''matched_rows'' of
        Inl e \<Rightarrow> True
      | Inr matched \<Rightarrow>
          (case template matched of
             Inl e \<Rightarrow> False
           | Inr m \<Rightarrow>
               (case field data ''rows'' of
                  Inl e \<Rightarrow> True
                | Inr rws \<Rightarrow>
                    (case template (length_of (or_empty rws)) of Inl e \<Rightarrow> False | Inr n \<Rightarrow> True))))"

fun answer_prints :: "host \<Rightarrow> event \<Rightarrow> bool" where
  "answer_prints h (MachineSearch v l net) =
     (case fst (fetchJson h net []) of Inl e \<Rightarrow> True | Inr data \<Rightarrow> counters_print data)"
| "answer_prints h (LocationSearch v l net) =
     (case fst (fetchJson h net []) of Inl e \<Rightarrow> True | Inr data \<Rightarrow> counters_print data)"
| "answer_prints h e = True"

section \<open>The result limit\<close>

text \<open>
  C3 (as the code has it). The limit sent with a search is 50 when the selector's
  value has no leading integer (\<open>parseInt\<close> gives \<open>NaN\<close>: an absent, empty or
  non-numeric value) or when it parses to zero; in every other case it is the parsed
  value, a negative one included. Both searches compute it by the same expression.
\<close>

theorem limit_default_or_parsed:
  "(parseInt v = None \<longrightarrow> limit_of v = 50) \<and>
   (parseInt v = Some 0 \<longrightarrow> limit_of v = 50) \<and>
   (\<forall>n. parseInt v = Some n \<and> n \<noteq> 0 \<longrightarrow> limit_of v = n) \<and>
   parseInt [] = None"
  by (simp add: limit_of_def parseInt_def)

lemmas eval_parseInt =
  limit_of_def parseInt_def js_def is_white_def is_radix_digit_def digit_value_def radix_value_def

theorem limit_default_or_parsed_witness:
  "parseInt (js ''abc'') = None \<and> limit_of (js ''abc'') = 50 \<and>
   parseInt (js ''0'') = Some 0 \<and> limit_of (js ''0'') = 50 \<and>
   parseInt (js ''25'') = Some 25 \<and> limit_of (js ''25'') = 25"
  using limit_default_or_parsed [of "js ''abc''"] limit_default_or_parsed [of "js ''0''"]
    limit_default_or_parsed [of "js ''25''"]
  by (simp add: eval_parseInt)

text \<open>
  C3 as written fails: the value \<open>-5\<close> parses to a non-positive number, and the limit
  is \<open>-5\<close>, not 50.
\<close>

theorem limit_negative_counterexample:
  "parseInt (js ''-5'') = Some (- 5) \<and> limit_of (js ''-5'') = - 5 \<and> limit_of (js ''-5'') \<noteq> 50"
  by (simp add: eval_parseInt)

section \<open>The fetch operations\<close>

lemma new_Error_string: "new_Error (JString s) = Error s"
  by (simp add: new_Error_def)

lemma js_append_nonempty: "js (c # cs) @ t \<noteq> []"
  by (simp add: js_def)

text \<open>
  C1 (as the code has it). In the retrying script, when the first response is refused
  by \<open>attempt\<close>, exactly one retry follows after a wait of 250 ms; it sends the same
  request again, and its outcome is the result: the retry's failure as it is, or its
  payload. A first response that is accepted is returned without a retry. No call
  sends more than two requests. \<open>fetchJson\<close> of static/script.js sends exactly one
  request and never retries.
\<close>

theorem retry_once:
  "(net 0 = Inr res \<and> attempt h res = Inl e \<longrightarrow>
      fetchJson_retry h net origin url =
        ((case net 1 of Inl e' \<Rightarrow> Inl e' | Inr res' \<Rightarrow> attempt h res'),
         [Fetch (absolute origin url) boot_init, Timeout 250, Fetch (absolute origin url) boot_init])) \<and>
   (net 0 = Inr res \<and> attempt h res = Inr j \<longrightarrow>
      fetchJson_retry h net origin url = (Inr j, [Fetch (absolute origin url) boot_init])) \<and>
   length (filter is_fetch (snd (fetchJson_retry h net origin url))) \<le> 2 \<and>
   snd (fetchJson h net url) = [Fetch url script_init]"
  by (auto simp: fetchJson_retry_def fetchJson_def Let_def split: sum.splits)

lemmas eval_fetch =
  fetchJson_def fetchJson_retry_def attempt_def failure_def failure_msg_def res_json_def
  header_or_empty_def ok_def new_Error_def non_json_def http_status_text_def field_def
  always_def json_response_def text_response_def sample_host_def sample_parse_def
  sample_stringify_def body_detail_def json_detail_def body_result_def json_result_def
  body_inherited_def json_inherited_def body_odd_count_def json_odd_count_def
  absolute_def js_def Number_toString_def digits_of.simps trim_def is_white_def

text \<open>
  The scenario of the specification in the retrying script: status 500 with a
  \<open>detail\<close>, twice.
\<close>

theorem retry_once_witness:
  "always (Inr (json_response 500 body_detail)) 0 = Inr (json_response 500 body_detail) \<and>
   attempt sample_host (json_response 500 body_detail) = Inl (Error (js ''db unavailable'')) \<and>
   fetchJson_retry sample_host (always (Inr (json_response 500 body_detail)))
     (js ''https://jd.example'') (js ''/api/search/machine?machine_id=M-102&limit=50'') =
   (Inl (Error (js ''db unavailable'')),
    [Fetch (js ''https://jd.example/api/search/machine?machine_id=M-102&limit=50'') boot_init,
     Timeout 250,
     Fetch (js ''https://jd.example/api/search/machine?machine_id=M-102&limit=50'') boot_init])"
  using retry_once [of "always (Inr (json_response 500 body_detail))" "json_response 500 body_detail"
      sample_host "Error (js ''db unavailable'')" "js ''https://jd.example''"
      "js ''/api/search/machine?machine_id=M-102&limit=50''"]
  by (simp add: eval_fetch)

text \<open>
  C1 as written fails on static/script.js: the first attempt fails, and the failure
  is returned after one request, with no wait and no second request.
\<close>

theorem no_retry_counterexample:
  "fetchJson sample_host (always (Inr (json_response 500 body_detail)))
     (js ''/api/search/machine?machine_id=M-102&limit=50'') =
   (Inl (Error (js ''db unavailable'')),
    [Fetch (js ''/api/search/machine?machine_id=M-102&limit=50'') script_init])"
  by (simp add: eval_fetch)

text \<open>
  C2 (as the code has it). For a response with a success status, \<open>attempt\<close> of the
  retrying script fails with the text body as message when the content type does not
  include \<open>application/json\<close> and the body is not empty, with
  \<open>Non-JSON response received\<close> when that body is empty, with
  \<open>Empty response from server\<close> when the content type is JSON and the body is empty
  or white space only, and otherwise gives what \<open>JSON.parse\<close> gives for the body.
  \<open>fetchJson\<close> of static/script.js returns an empty object for status 204, fails in
  the same way for a content type that is not JSON, and otherwise gives the parser's
  result for the body.
\<close>

theorem success_response:
  assumes "ok r"
  shows
    "(body r = Inr text \<and> \<not> includes_str (header_or_empty r) (js ''application/json'') \<and> text \<noteq> [] \<longrightarrow>
        attempt h r = Inl (Error text)) \<and>
     (body r = Inr [] \<and> \<not> includes_str (header_or_empty r) (js ''application/json'') \<longrightarrow>
        attempt h r = Inl (Error (js ''Non-JSON response received''))) \<and>
     (body r = Inr text \<and> includes_str (header_or_empty r) (js ''application/json'') \<and> trim text = [] \<longrightarrow>
        attempt h r = Inl (Error (js ''Empty response from server''))) \<and>
     (body r = Inr text \<and> includes_str (header_or_empty r) (js ''application/json'') \<and> trim text \<noteq> [] \<longrightarrow>
        attempt h r = JSON_parse h text) \<and>
     (net 0 = Inr r \<and> status r = 204 \<longrightarrow> fst (fetchJson h net url) = Inr (JObject [])) \<and>
     (net 0 = Inr r \<and> status r \<noteq> 204 \<and> body r = Inr text \<and>
      \<not> includes_str (header_or_empty r) (js ''application/json'') \<longrightarrow>
        fst (fetchJson h net url) =
          Inl (Error (if text = [] then js ''Non-JSON response received'' else text))) \<and>
     (net 0 = Inr r \<and> status r \<noteq> 204 \<and> body r = Inr text \<and>
      includes_str (header_or_empty r) (js ''application/json'') \<longrightarrow>
        fst (fetchJson h net url) = JSON_parse h text)"
  using assms
  by (auto simp: attempt_def fetchJson_def Let_def non_json_def res_json_def trim_def)

text \<open>
  Success responses: a JSON body, a blank JSON body, an HTML body.
\<close>

theorem success_response_witness:
  "ok (json_response 200 body_result) \<and>
   attempt sample_host (json_response 200 body_result) = Inr json_result \<and>
   fst (fetchJson sample_host (always (Inr (json_response 200 body_result))) (js ''/x'')) = Inr json_result \<and>
   attempt sample_host (json_response 200 (js '' '')) = Inl (Error (js ''Empty response from server'')) \<and>
   attempt sample_host (text_response 200 (js ''<html>'')) = Inl (Error (js ''<html>''))"
  using success_response [of "json_response 200 body_result" body_result sample_host
      "always (Inr (json_response 200 body_result))" "js ''/x''"]
  by (simp add: eval_fetch)

text \<open>
  C2 as written fails: for a success response with an empty body whose content type
  is not JSON the message is \<open>Non-JSON response received\<close>, which is neither
  \<open>Empty response from server\<close> nor the (empty) text body.
\<close>

theorem empty_body_counterexample:
  "ok (text_response 200 []) \<and> body (text_response 200 []) = Inr [] \<and>
   attempt sample_host (text_response 200 []) = Inl (Error (js ''Non-JSON response received'')) \<and>
   fst (fetchJson sample_host (always (Inr (text_response 200 []))) (js ''/x'')) =
     Inl (Error (js ''Non-JSON response received'')) \<and>
   js ''Non-JSON response received'' \<noteq> js ''Empty response from server'' \<and>
   js ''Non-JSON response received'' \<noteq> []"
  by (simp add: eval_fetch)

lemma failure_unfold:
  "failure h r ct =
     (let msg = failure_msg h r ct in new_Error (if truthy msg then msg else JString (js ''Request failed'')))"
  by (simp add: failure_def)




section \<open>Encoding of the search value\<close>

lemma unescaped_not_surrogate: "unescaped c \<Longrightarrow> \<not> is_lead c \<and> \<not> is_trail c"
  by (auto simp: unescaped_def is_lead_def is_trail_def word_le_nat_alt)

lemma lead_not_trail: "is_lead c \<Longrightarrow> \<not> is_trail c"
  by (auto simp: is_lead_def is_trail_def word_le_nat_alt)

lemma followed_by_Inr: "(followed_by s r = Inr t) = (\<exists>u. r = Inr u \<and> t = s @ u)"
  by (auto simp: followed_by_def split: sum.splits)

lemma followed_by_Inl: "(followed_by s r = Inl e) = (r = Inl e)"
  by (auto simp: followed_by_def split: sum.splits)

lemma encode_total: "(\<exists>e. encodeURIComponent s = Inr e) \<longleftrightarrow> well_formed s"
  by (induction s rule: encodeURIComponent.induct)
     (auto simp: followed_by_Inr unescaped_not_surrogate lead_not_trail)

lemma encode_error: "encodeURIComponent s = Inl e \<Longrightarrow> e = uri_malformed"
  by (induction s rule: encodeURIComponent.induct)
     (auto simp: followed_by_Inl split: if_splits)

lemma unat_of_small: "n < 65536 \<Longrightarrow> unat (of_nat n :: code_unit) = n"
  by (simp add: unat_of_nat)

lemma is_hex_hex_digit: "d < 16 \<Longrightarrow> is_hex (hex_digit d)"
  by (auto simp: is_hex_def hex_digit_def word_le_nat_alt unat_of_small simp del: of_nat_add)

lemma hex_unescaped: "is_hex c \<Longrightarrow> unescaped c"
  by (auto simp: is_hex_def unescaped_def word_le_nat_alt)

lemma percent_not_unescaped: "\<not> unescaped (0x25 :: code_unit)"
  by (simp add: unescaped_def)

lemma pe_unescaped_Cons: "unescaped c \<Longrightarrow> percent_encoded (c # s) = percent_encoded s"
  by (cases s rule: percent_encoded.cases) auto

lemma pe_percent_Cons:
  "is_hex a \<Longrightarrow> is_hex b \<Longrightarrow> percent_encoded (0x25 # a # b # s) = percent_encoded s"
  by (simp add: percent_not_unescaped)

lemma pe_percent: "octet < 256 \<Longrightarrow> percent_encoded (percent octet @ s) = percent_encoded s"
  using pe_percent_Cons [of "hex_digit (octet div 16)" "hex_digit (octet mod 16)" s]
  by (simp add: percent_def is_hex_hex_digit del: percent_encoded.simps)

lemma utf8_octets: "cp < 0x110000 \<Longrightarrow> \<forall>octet \<in> set (utf8 cp). octet < 256"
  by (auto simp: utf8_def)

lemma pe_percents: "\<forall>octet \<in> set os. octet < 256 \<Longrightarrow>
  percent_encoded (concat (map percent os) @ s) = percent_encoded s"
  by (induction os) (auto simp: pe_percent)

lemma pe_percent_utf8: "cp < 0x110000 \<Longrightarrow> percent_encoded (percent_utf8 cp @ s) = percent_encoded s"
  unfolding percent_utf8_def by (rule pe_percents) (rule utf8_octets)

lemma unit_code_point: "unat (C :: code_unit) < 0x110000"
  using unsigned_less [of C, where ?'a = nat] by simp

lemma pair_code_point: "is_lead C \<Longrightarrow> is_trail D \<Longrightarrow> pair_to_code_point C D < 0x110000"
  using unsigned_less [of C, where ?'a = nat] unsigned_less [of D, where ?'a = nat]
  by (auto simp: pair_to_code_point_def is_lead_def is_trail_def word_le_nat_alt)

lemma encode_percent_encoded: "encodeURIComponent s = Inr e \<Longrightarrow> percent_encoded e"
proof (induction s arbitrary: e rule: encodeURIComponent.induct)
  case 1
  then show ?case by simp
next
  case (2 C)
  then show ?case
    using pe_percent_utf8 [OF unit_code_point, of C "[]"]
    by (auto split: if_splits)
next
  case (3 C D S)
  then show ?case
    using pe_percent_utf8 [OF unit_code_point, of C] pe_percent_utf8 [OF pair_code_point, of C D]
    by (auto simp: followed_by_Inr pe_unescaped_Cons split: if_splits)
qed

lemma pe_members: "percent_encoded s \<Longrightarrow> c \<in> set s \<Longrightarrow> unescaped c \<or> c = 0x25"
  by (induction s rule: percent_encoded.induct) (auto simp: hex_unescaped split: if_splits)

section \<open>Validation of the input\<close>

lemma showError_lastSearch [simp]: "lastSearch (showError m u) = lastSearch u"
  by (simp add: showError_def toast_def)

lemma showLoading_lastSearch [simp]: "lastSearch (showLoading m u) = lastSearch u"
  by (simp add: showLoading_def)

lemma renderTable_lastSearch [simp]: "lastSearch (snd (renderTable h data u)) = lastSearch u"
  by (simp add: renderTable_def Let_def split: sum.splits)

lemma fetchJson_effects: "snd (fetchJson h net url) = [Fetch url script_init]"
  by (simp add: fetchJson_def Let_def split: sum.splits)

lemma fetchJson_effectsD: "fetchJson h net url = (r, fx) \<Longrightarrow> fx = [Fetch url script_init]"
  using fetchJson_effects [of h net url] by simp

lemma searchByMachine_effects:
  "snd (searchByMachine h net v l u) =
     (if trim v = [] then []
      else case encodeURIComponent (trim v) of
             Inl e \<Rightarrow> []
           | Inr enc \<Rightarrow> [Fetch (js ''/api/search/machine?machine_id='' @ enc @ js ''&limit='' @
                                Number_toString (limit_of l)) script_init])"
  by (auto simp: searchByMachine_def Let_def split: sum.splits prod.splits dest: fetchJson_effectsD)

lemma searchByLocation_effects:
  "snd (searchByLocation h net v l u) =
     (if trim v = [] then []
      else case encodeURIComponent (trim v) of
             Inl e \<Rightarrow> []
           | Inr enc \<Rightarrow> [Fetch (js ''/api/search/location?q='' @ enc @ js ''&limit='' @
                                Number_toString (limit_of l)) script_init])"
  by (auto simp: searchByLocation_def Let_def split: sum.splits prod.splits dest: fetchJson_effectsD)

lemma showError_shown:
  \<open>outputBox (showError m u) = js ''<div class="error">'' @ escape_text m @ js ''</div>'' \<and>
   statusText (showError m u) = js ''Error!'' \<and>
   toasts (showError m u) = toasts u @ [(js ''error'', m)]\<close>
  by (simp add: showError_def toast_def)

text \<open>
  C5 (as the code has it). When the field is empty or white space only, each search
  shows its \<open>required\<close> error and has no effect on the outside: no request. When the
  trimmed value is not empty and is well formed, each search sends one request.
\<close>

theorem required_or_dispatched:
  "(trim v = [] \<longrightarrow>
      searchByMachine h net v l u = (showError (js ''Machine ID required'') u, []) \<and>
      searchByLocation h net v l u = (showError (js ''Location required'') u, [])) \<and>
   (trim v \<noteq> [] \<and> well_formed (trim v) \<longrightarrow>
      (\<exists>url. snd (searchByMachine h net v l u) = [Fetch url script_init]) \<and>
      (\<exists>url. snd (searchByLocation h net v l u) = [Fetch url script_init]))"
proof -
  have "trim v = [] \<longrightarrow>
      searchByMachine h net v l u = (showError (js ''Machine ID required'') u, []) \<and>
      searchByLocation h net v l u = (showError (js ''Location required'') u, [])"
    by (simp add: searchByMachine_def searchByLocation_def)
  moreover have "trim v \<noteq> [] \<and> well_formed (trim v) \<longrightarrow>
      (\<exists>url. snd (searchByMachine h net v l u) = [Fetch url script_init]) \<and>
      (\<exists>url. snd (searchByLocation h net v l u) = [Fetch url script_init])"
    using encode_total [of "trim v"]
    by (auto simp: searchByMachine_effects searchByLocation_effects)
  ultimately show ?thesis by blast
qed

lemmas eval_encode =
  js_def unescaped_def is_lead_def is_trail_def followed_by_def percent_utf8_def utf8_def
  percent_def hex_digit_def pair_to_code_point_def uri_malformed_def trim_def is_white_def

lemmas eval_show =
  showError_def showLoading_def toast_def escape_text_def replace_all_def empty_page_def

text \<open>
  The scenario of the specification (a location of two spaces), and a machine
  identifier with spaces around it.
\<close>

theorem required_or_dispatched_witness:
  \<open>trim (js ''  '') = [] \<and>
   searchByLocation sample_host (always (Inr (json_response 200 body_result))) (js ''  '') (js ''50'')
       empty_page =
     (showError (js ''Location required'') empty_page, []) \<and>
   outputBox (showError (js ''Location required'') empty_page) =
     js ''<div class="error">Location required</div>'' \<and>
   trim (js '' M-102 '') \<noteq> [] \<and> well_formed (trim (js '' M-102 '')) \<and>
   snd (searchByMachine sample_host (always (Inr (json_response 200 body_result))) (js '' M-102 '')
          (js ''50'') empty_page) =
     [Fetch (js ''/api/search/machine?machine_id=M-102&limit=50'') script_init]\<close>
  using required_or_dispatched [of "js ''  ''" sample_host
      "always (Inr (json_response 200 body_result))" "js ''50''" empty_page]
    required_or_dispatched [of "js '' M-102 ''" sample_host
      "always (Inr (json_response 200 body_result))" "js ''50''" empty_page]
  by (simp add: searchByMachine_effects eval_encode eval_show limit_of_def parseInt_def is_radix_digit_def digit_value_def radix_value_def Number_toString_def
      digits_of.simps)

text \<open>
  C5 as written fails: the value consisting of one unpaired surrogate is not empty
  after trimming, yet no request is sent: \<open>encodeURIComponent\<close> throws and the
  error is shown.
\<close>

theorem lone_surrogate_counterexample:
  "trim [0xD800] = [0xD800] \<and> trim [0xD800] \<noteq> [] \<and>
   snd (searchByMachine sample_host (always (Inr (json_response 200 body_result))) [0xD800]
          (js ''50'') empty_page) = [] \<and>
   statusText (fst (searchByMachine sample_host (always (Inr (json_response 200 body_result)))
          [0xD800] (js ''50'') empty_page)) = js ''Error!'' \<and>
   snd (searchByLocation sample_host (always (Inr (json_response 200 body_result))) [0xD800]
          (js ''50'') empty_page) = []"
  by (simp add: searchByMachine_effects searchByLocation_effects searchByMachine_def eval_encode
      eval_show)

section \<open>The addresses requested\<close>

lemma ampersand_not_encoded: "percent_encoded enc \<Longrightarrow> 0x26 \<notin> set enc"
  using pe_members [of enc "0x26"] by (auto simp: unescaped_def)

lemma renderTable_lastSearchD: "renderTable h data u = (r, u') \<Longrightarrow> lastSearch u' = lastSearch u"
  using renderTable_lastSearch [of h data u] by simp

lemma searchByMachine_stores:
  "trim v \<noteq> [] \<Longrightarrow> encodeURIComponent (trim v) = Inr enc \<Longrightarrow>
   fst (fetchJson h net (js ''/api/search/machine?machine_id='' @ enc @ js ''&limit='' @
          Number_toString (limit_of l))) = Inr data \<Longrightarrow>
   lastSearch (fst (searchByMachine h net v l u)) =
     Some \<lparr>search_type = machine, search_value = trim v\<rparr>"
  by (auto simp: searchByMachine_def Let_def split: sum.splits prod.splits dest: renderTable_lastSearchD)

lemma searchByLocation_stores:
  "trim v \<noteq> [] \<Longrightarrow> encodeURIComponent (trim v) = Inr enc \<Longrightarrow>
   fst (fetchJson h net (js ''/api/search/location?q='' @ enc @ js ''&limit='' @
          Number_toString (limit_of l))) = Inr data \<Longrightarrow>
   lastSearch (fst (searchByLocation h net v l u)) =
     Some \<lparr>search_type = location, search_value = trim v\<rparr>"
  by (auto simp: searchByLocation_def Let_def split: sum.splits prod.splits dest: renderTable_lastSearchD)

lemma fetchJson_any_url: "fst (fetchJson h net url) = fst (fetchJson h net url')"
  by (simp add: fetchJson_def Let_def split: sum.splits)

lemma downloadAllMatched_effects:
  "lastSearch u = Some s \<Longrightarrow> encodeURIComponent (search_value s) = Inr enc \<Longrightarrow>
   snd (downloadAllMatched net u) =
     (case net 0 of
        Inl e \<Rightarrow>
          [Fetch ((if search_type s = machine then js ''/api/export/machine?machine_id=''
                   else js ''/api/export/location?q='') @ enc) export_init]
      | Inr res \<Rightarrow>
          (case body res of
             Inl e \<Rightarrow>
               [Fetch ((if search_type s = machine then js ''/api/export/machine?machine_id=''
                        else js ''/api/export/location?q='') @ enc) export_init]
           | Inr content \<Rightarrow>
               if ok res then
                 [Fetch ((if search_type s = machine then js ''/api/export/machine?machine_id=''
                          else js ''/api/export/location?q='') @ enc) export_init,
                  Download (js ''results.csv'') content]
               else
                 [Fetch ((if search_type s = machine then js ''/api/export/machine?machine_id=''
                          else js ''/api/export/location?q='') @ enc) export_init]))"
  by (auto simp: downloadAllMatched_def Let_def split: sum.splits)

text \<open>
  C8. A search with a non-empty trimmed value that \<open>encodeURIComponent\<close> accepts
  sends exactly one request, to
  \<open>/api/search/machine?machine_id=<value>&limit=<n>\<close> or to
  \<open>/api/search/location?q=<value>&limit=<n>\<close>, where \<open><value>\<close> is the trimmed
  value encoded and \<open><n>\<close> the limit; in every other case it sends none. The
  encoded value is percent-encoded and contains no \<open>&\<close>. When the search is
  answered with a payload, its kind and trimmed value are stored as the last search.
  The export sends exactly one request, to the export endpoint of the kind of the
  stored last search followed by its encoded value and nothing else, so with no
  limit parameter; when the answer has a success status, the body is downloaded
  under the name \<open>results.csv\<close>, and otherwise nothing is downloaded.
\<close>

theorem request_urls:
  "snd (searchByMachine h net v l u) =
     (if trim v = [] then []
      else case encodeURIComponent (trim v) of
             Inl e \<Rightarrow> []
           | Inr enc \<Rightarrow> [Fetch (js ''/api/search/machine?machine_id='' @ enc @ js ''&limit='' @
                                Number_toString (limit_of l)) script_init]) \<and>
   snd (searchByLocation h net v l u) =
     (if trim v = [] then []
      else case encodeURIComponent (trim v) of
             Inl e \<Rightarrow> []
           | Inr enc \<Rightarrow> [Fetch (js ''/api/search/location?q='' @ enc @ js ''&limit='' @
                                Number_toString (limit_of l)) script_init]) \<and>
   (encodeURIComponent w = Inr enc \<longrightarrow> percent_encoded enc \<and> 0x26 \<notin> set enc) \<and>
   (trim v \<noteq> [] \<and> encodeURIComponent (trim v) = Inr enc \<and> fst (fetchJson h net url) = Inr data \<longrightarrow>
      lastSearch (fst (searchByMachine h net v l u)) =
        Some \<lparr>search_type = machine, search_value = trim v\<rparr> \<and>
      lastSearch (fst (searchByLocation h net v l u)) =
        Some \<lparr>search_type = location, search_value = trim v\<rparr>) \<and>
   (lastSearch u' = Some s \<and> encodeURIComponent (search_value s) = Inr enc' \<longrightarrow>
      snd (downloadAllMatched net' u') =
        (case net' 0 of
           Inl e \<Rightarrow>
             [Fetch ((if search_type s = machine then js ''/api/export/machine?machine_id=''
                      else js ''/api/export/location?q='') @ enc') export_init]
         | Inr res \<Rightarrow>
             (case body res of
                Inl e \<Rightarrow>
                  [Fetch ((if search_type s = machine then js ''/api/export/machine?machine_id=''
                           else js ''/api/export/location?q='') @ enc') export_init]
              | Inr content \<Rightarrow>
                  if ok res then
                    [Fetch ((if search_type s = machine then js ''/api/export/machine?machine_id=''
                             else js ''/api/export/location?q='') @ enc') export_init,
                     Download (js ''results.csv'') content]
                  else
                    [Fetch ((if search_type s = machine then js ''/api/export/machine?machine_id=''
                             else js ''/api/export/location?q='') @ enc') export_init])))"
proof -
  have enc: "encodeURIComponent w = Inr enc \<longrightarrow> percent_encoded enc \<and> 0x26 \<notin> set enc"
    using encode_percent_encoded [of w enc] ampersand_not_encoded [of enc] by blast
  have stores: "trim v \<noteq> [] \<and> encodeURIComponent (trim v) = Inr enc \<and>
      fst (fetchJson h net url) = Inr data \<longrightarrow>
      lastSearch (fst (searchByMachine h net v l u)) =
        Some \<lparr>search_type = machine, search_value = trim v\<rparr> \<and>
      lastSearch (fst (searchByLocation h net v l u)) =
        Some \<lparr>search_type = location, search_value = trim v\<rparr>"
  proof
    assume a: "trim v \<noteq> [] \<and> encodeURIComponent (trim v) = Inr enc \<and>
      fst (fetchJson h net url) = Inr data"
    have m: "fst (fetchJson h net (js ''/api/search/machine?machine_id='' @ enc @ js ''&limit='' @
          Number_toString (limit_of l))) = Inr data"
      using a fetchJson_any_url [of h net url] by simp
    have lo: "fst (fetchJson h net (js ''/api/search/location?q='' @ enc @ js ''&limit='' @
          Number_toString (limit_of l))) = Inr data"
      using a fetchJson_any_url [of h net url] by simp
    show "lastSearch (fst (searchByMachine h net v l u)) =
        Some \<lparr>search_type = machine, search_value = trim v\<rparr> \<and>
      lastSearch (fst (searchByLocation h net v l u)) =
        Some \<lparr>search_type = location, search_value = trim v\<rparr>"
      using a searchByMachine_stores [OF _ _ m, of v u] searchByLocation_stores [OF _ _ lo, of v u]
      by simp
  qed
  show ?thesis
    using enc stores downloadAllMatched_effects [of u' s enc' net']
    by (simp only: searchByMachine_effects searchByLocation_effects) blast
qed

text \<open>
  A machine search for \<open>M 1&2\<close>, a location search for \<open>a b\<close>, and the export
  from the state that location search leaves behind.
\<close>

theorem request_urls_witness:
  "trim (js '' a b '') \<noteq> [] \<and>
   encodeURIComponent (trim (js '' a b '')) = Inr (js ''a%20b'') \<and>
   percent_encoded (js ''a%20b'') \<and>
   fst (fetchJson sample_host (always (Inr (json_response 200 body_result))) []) = Inr json_result \<and>
   snd (searchByMachine sample_host (always (Inr (json_response 200 body_result)))
          (js '' M 1&2 '') (js ''50'') (showHint empty_page)) =
     [Fetch (js ''/api/search/machine?machine_id=M%201%262&limit=50'') script_init] \<and>
   snd (searchByLocation sample_host (always (Inr (json_response 200 body_result)))
          (js '' a b '') (js ''50'') (showHint empty_page)) =
     [Fetch (js ''/api/search/location?q=a%20b&limit=50'') script_init] \<and>
   lastSearch (fst (searchByLocation sample_host (always (Inr (json_response 200 body_result)))
          (js '' a b '') (js ''50'') (showHint empty_page))) =
     Some \<lparr>search_type = location, search_value = js ''a b''\<rparr> \<and>
   snd (downloadAllMatched (always (Inr (text_response 200 (js ''id,site''))))
          (fst (searchByLocation sample_host (always (Inr (json_response 200 body_result)))
                 (js '' a b '') (js ''50'') (showHint empty_page)))) =
     [Fetch (js ''/api/export/location?q=a%20b'') export_init,
      Download (js ''results.csv'') (js ''id,site'')]"
proof -
  have t: "trim (js '' a b '') = js ''a b''"
    by (simp add: eval_encode)
  have e: "encodeURIComponent (js ''a b'') = Inr (js ''a%20b'')"
    by (simp add: eval_encode)
  have f: "fst (fetchJson sample_host (always (Inr (json_response 200 body_result))) []) =
      Inr json_result"
    by (simp add: eval_fetch)
  have m: "snd (searchByMachine sample_host (always (Inr (json_response 200 body_result)))
          (js '' M 1&2 '') (js ''50'') (showHint empty_page)) =
     [Fetch (js ''/api/search/machine?machine_id=M%201%262&limit=50'') script_init]"
    using request_urls [where h = sample_host
        and net = "always (Inr (json_response 200 body_result))"
        and v = "js '' M 1&2 ''" and l = "js ''50''" and u = "showHint empty_page"]
    by (simp add: eval_encode eval_parseInt Number_toString_def digits_of.simps)
  note r = request_urls [where h = sample_host
      and net = "always (Inr (json_response 200 body_result))"
      and v = "js '' a b ''" and l = "js ''50''" and u = "showHint empty_page"
      and w = "js ''a b''" and enc = "js ''a%20b''" and url = "[]" and data = json_result
      and u' = "fst (searchByLocation sample_host (always (Inr (json_response 200 body_result)))
             (js '' a b '') (js ''50'') (showHint empty_page))"
      and s = "\<lparr>search_type = location, search_value = js ''a b''\<rparr>"
      and enc' = "js ''a%20b''"
      and net' = "always (Inr (text_response 200 (js ''id,site'')))"]
  have lo: "snd (searchByLocation sample_host (always (Inr (json_response 200 body_result)))
          (js '' a b '') (js ''50'') (showHint empty_page)) =
     [Fetch (js ''/api/search/location?q=a%20b&limit=50'') script_init]"
    using r t e by (simp add: eval_parseInt Number_toString_def digits_of.simps)
  have p: "percent_encoded (js ''a%20b'')"
    using r e by simp
  have st: "lastSearch (fst (searchByLocation sample_host (always (Inr (json_response 200 body_result)))
          (js '' a b '') (js ''50'') (showHint empty_page))) =
     Some \<lparr>search_type = location, search_value = js ''a b''\<rparr>"
    using r t e f by (simp add: js_def)
  have d: "snd (downloadAllMatched (always (Inr (text_response 200 (js ''id,site''))))
          (fst (searchByLocation sample_host (always (Inr (json_response 200 body_result)))
                 (js '' a b '') (js ''50'') (showHint empty_page)))) =
     [Fetch (js ''/api/export/location?q=a%20b'') export_init,
      Download (js ''results.csv'') (js ''id,site'')]"
    using r st e by (simp add: always_def text_response_def ok_def js_def)
  from t e f m lo p st d show ?thesis by (simp add: js_def)
qed

section \<open>Escaping\<close>

lemma replace_all_Cons:
  "replace_all c t (x # s) = (if x = c then t else [x]) @ replace_all c t s"
  by (simp add: replace_all_def)

lemma replace_all_append: "replace_all c t (a @ b) = replace_all c t a @ replace_all c t b"
  by (simp add: replace_all_def)

lemma replace_all_Nil: "replace_all c t [] = []"
  by (simp add: replace_all_def)

lemma escape_text_Nil: "escape_text [] = []"
  by (simp add: escape_text_def replace_all_def)

lemma escape_text_Cons: "escape_text (x # s) = escape_unit x @ escape_text s"
  by (simp add: escape_text_def escape_unit_def replace_all_Cons replace_all_append
      replace_all_Nil js_def)

lemma escape_text_concat: "escape_text s = concat (map escape_unit s)"
  by (induction s) (simp_all add: escape_text_Nil escape_text_Cons)

lemma inert_escape_unit: "inert t \<Longrightarrow> inert (escape_unit x @ t)"
  by (simp add: escape_unit_def js_def)

lemma inert_escape_text: "inert (escape_text s)"
  by (induction s) (simp_all add: escape_text_Nil escape_text_Cons inert_escape_unit)

lemma escapeHtml_escaped: "escapeHtml v = Inr t \<longleftrightarrow> escaped_from v t"
  by (auto simp: escapeHtml_def escaped_from_def split: sum.splits)

lemma escaped_inert: "escaped_from v t \<Longrightarrow> inert t"
  by (auto simp: escaped_from_def inert_escape_text split: sum.splits)

lemma header_cells_texts:
  "header_cells cs = Inr hs \<Longrightarrow>
   \<exists>ts. list_all2 (\<lambda>c t. escaped_from (Json c) t) cs ts \<and> hs = concat (map th ts)"
proof (induction cs arbitrary: hs)
  case Nil
  then show ?case by simp
next
  case (Cons c cs)
  from Cons.prems obtain t rest where
    t: "escapeHtml (Json c) = Inr t" and rest: "header_cells cs = Inr rest"
    and hs: "hs = js ''<th>'' @ t @ js ''</th>'' @ rest"
    by (auto simp: followed_by_Inr split: sum.splits)
  from Cons.IH [OF rest] obtain ts where
    ts: "list_all2 (\<lambda>c t. escaped_from (Json c) t) cs ts" "rest = concat (map th ts)"
    by blast
  have "list_all2 (\<lambda>c t. escaped_from (Json c) t) (c # cs) (t # ts)"
    using t ts by (simp add: escapeHtml_escaped)
  moreover have "hs = concat (map th (t # ts))"
    using hs ts by (simp add: th_def)
  ultimately show ?case by blast
qed

lemma row_cells_texts:
  "row_cells h r cs = Inr tds \<Longrightarrow>
   \<exists>ts. list_all2 (\<lambda>c t. \<exists>v. element h r c = Inr v \<and> escaped_from v t) cs ts \<and>
        tds = concat (map td ts)"
proof (induction cs arbitrary: tds)
  case Nil
  then show ?case by simp
next
  case (Cons c cs)
  from Cons.prems obtain v t rest where
    v: "element h r c = Inr v" and t: "escapeHtml v = Inr t"
    and rest: "row_cells h r cs = Inr rest"
    and tds: "tds = js ''<td>'' @ t @ js ''</td>'' @ rest"
    by (auto simp: followed_by_Inr split: sum.splits)
  from Cons.IH [OF rest] obtain ts where
    ts: "list_all2 (\<lambda>c t. \<exists>v. element h r c = Inr v \<and> escaped_from v t) cs ts"
      "rest = concat (map td ts)"
    by blast
  have "list_all2 (\<lambda>c t. \<exists>v. element h r c = Inr v \<and> escaped_from v t) (c # cs) (t # ts)"
    using v t ts by (auto simp: escapeHtml_escaped)
  moreover have "tds = concat (map td (t # ts))"
    using tds ts by (simp add: td_def)
  ultimately show ?case by blast
qed

lemma body_rows_texts:
  "body_rows h cs rs = Inr bs \<Longrightarrow>
   \<exists>tss. list_all2 (\<lambda>r ts. list_all2 (\<lambda>c t. \<exists>v. element h r c = Inr v \<and> escaped_from v t) cs ts)
            rs tss \<and>
         bs = concat (map tr tss)"
proof (induction rs arbitrary: bs)
  case Nil
  then show ?case by simp
next
  case (Cons r rs)
  from Cons.prems obtain tds rest where
    tds: "row_cells h r cs = Inr tds" and rest: "body_rows h cs rs = Inr rest"
    and bs: "bs = js ''<tr>'' @ tds @ js ''</tr>'' @ rest"
    by (auto simp: followed_by_Inr split: sum.splits)
  from row_cells_texts [OF tds] obtain ts where
    ts: "list_all2 (\<lambda>c t. \<exists>v. element h r c = Inr v \<and> escaped_from v t) cs ts"
      "tds = concat (map td ts)"
    by blast
  from Cons.IH [OF rest] obtain tss where
    tss: "list_all2 (\<lambda>r ts. list_all2 (\<lambda>c t. \<exists>v. element h r c = Inr v \<and> escaped_from v t) cs ts)
            rs tss" "rest = concat (map tr tss)"
    by blast
  have "list_all2 (\<lambda>r ts. list_all2 (\<lambda>c t. \<exists>v. element h r c = Inr v \<and> escaped_from v t) cs ts)
          (r # rs) (ts # tss)"
    using ts tss by simp
  moreover have "bs = concat (map tr (ts # tss))"
    using bs ts tss by (simp add: tr_def)
  ultimately show ?case by blast
qed

lemma table_html_texts:
  assumes "table_html h matched cols rows = Inr html"
  shows "\<exists>cs rs m n hts tss.
     cols = JArray cs \<and> iterate rows = Inr rs \<and>
     escaped_from (of_option matched) m \<and> escaped_from (of_option (length_of rows)) n \<and>
     list_all2 (\<lambda>c t. escaped_from (Json c) t) cs hts \<and>
     list_all2 (\<lambda>r ts. list_all2 (\<lambda>c t. \<exists>v. element h r c = Inr v \<and> escaped_from v t) cs ts)
       rs tss \<and>
     html = result_meta m n @ table_open @ concat (map th hts) @ js ''</tr></thead><tbody>'' @
            concat (map tr tss) @ js ''</tbody></table></div>''"
proof -
  from assms obtain m n cs hs rs bs where
    m: "escapeHtml (of_option matched) = Inr m" and
    n: "escapeHtml (of_option (length_of rows)) = Inr n" and
    cols: "cols = JArray cs" and hs: "header_cells cs = Inr hs" and
    rs: "iterate rows = Inr rs" and bs: "body_rows h cs rs = Inr bs" and
    html: "html = result_meta m n @ table_open @ hs @ js ''</tr></thead><tbody>'' @ bs @
                  js ''</tbody></table></div>''"
    by (auto simp: table_html_def split: sum.splits json.splits)
  from header_cells_texts [OF hs] obtain hts where
    hts: "list_all2 (\<lambda>c t. escaped_from (Json c) t) cs hts" "hs = concat (map th hts)"
    by blast
  from body_rows_texts [OF bs] obtain tss where
    tss: "list_all2 (\<lambda>r ts. list_all2 (\<lambda>c t. \<exists>v. element h r c = Inr v \<and> escaped_from v t) cs ts)
            rs tss" "bs = concat (map tr tss)"
    by blast
  show ?thesis
    using m n cols rs hts tss html by (auto simp: escapeHtml_escaped)
qed

lemma list_all2_right:
  "list_all2 P xs ys \<Longrightarrow> (\<And>x y. P x y \<Longrightarrow> Q y) \<Longrightarrow> \<forall>y \<in> set ys. Q y"
  by (induction rule: list_all2_induct) auto

lemma renderTable_ok:
  assumes "renderTable h data u = (Inr (), u')"
  shows "\<exists>columns rws matched m n html.
     field data ''columns'' = Inr columns \<and> field data ''rows'' = Inr rws \<and>
     field data ''matched_rows'' = Inr matched \<and> template matched = Inr m \<and>
     template (length_of (or_empty rws)) = Inr n \<and>
     table_html h matched (or_empty columns) (or_empty rws) = Inr html \<and>
     u' = u\<lparr>lastResult := Some data, matchedPill := js ''Matched: '' @ m,
             returnedPill := js ''Returned: '' @ n, downloadBtn_disabled := False,
             copyJsonBtn_disabled := False, outputBox := html,
             statusText := js ''Loaded results.''\<rparr>"
  using assms by (auto simp: renderTable_def Let_def split: sum.splits)

text \<open>
  C7. \<open>escapeHtml\<close> turns each \<open>&\<close> into \<open>&amp;\<close>, each \<open><\<close> into
  \<open>&lt;\<close> and each \<open>>\<close> into \<open>&gt;\<close>, and its result contains none of the three
  characters in a position where it would be read as markup. Whenever renderTable
  completes, the output is the fixed markup of the table around such texts: the two
  counters, one text per header, one text per cell, each the escaped string form of
  its value.
\<close>

theorem inserted_text_escaped:
  "escape_text s = concat (map escape_unit s) \<and> inert (escape_text s) \<and>
   (renderTable h data u = (Inr (), u') \<longrightarrow>
      (\<exists>cs rs m n hts tss.
         list_all2 (\<lambda>c t. escaped_from (Json c) t) cs hts \<and>
         list_all2 (\<lambda>r ts. list_all2 (\<lambda>c t. \<exists>v. element h r c = Inr v \<and> escaped_from v t) cs ts)
           rs tss \<and>
         inert m \<and> inert n \<and> (\<forall>t \<in> set hts. inert t) \<and> (\<forall>ts \<in> set tss. \<forall>t \<in> set ts. inert t) \<and>
         outputBox u' =
           result_meta m n @ table_open @ concat (map th hts) @ js ''</tr></thead><tbody>'' @
           concat (map tr tss) @ js ''</tbody></table></div>''))"
proof -
  have "renderTable h data u = (Inr (), u') \<longrightarrow>
      (\<exists>cs rs m n hts tss.
         list_all2 (\<lambda>c t. escaped_from (Json c) t) cs hts \<and>
         list_all2 (\<lambda>r ts. list_all2 (\<lambda>c t. \<exists>v. element h r c = Inr v \<and> escaped_from v t) cs ts)
           rs tss \<and>
         inert m \<and> inert n \<and> (\<forall>t \<in> set hts. inert t) \<and> (\<forall>ts \<in> set tss. \<forall>t \<in> set ts. inert t) \<and>
         outputBox u' =
           result_meta m n @ table_open @ concat (map th hts) @ js ''</tr></thead><tbody>'' @
           concat (map tr tss) @ js ''</tbody></table></div>'')"
  proof
    assume ok: "renderTable h data u = (Inr (), u')"
    from renderTable_ok [OF ok] obtain columns rws matched html where
      html: "table_html h matched (or_empty columns) (or_empty rws) = Inr html" and
      out: "outputBox u' = html"
      by auto
    from table_html_texts [OF html] obtain cs rs m n hts tss where
      m: "escaped_from (of_option matched) m" and
      n: "escaped_from (of_option (length_of (or_empty rws))) n" and
      hts: "list_all2 (\<lambda>c t. escaped_from (Json c) t) cs hts" and
      tss: "list_all2 (\<lambda>r ts. list_all2 (\<lambda>c t. \<exists>v. element h r c = Inr v \<and> escaped_from v t) cs ts)
              rs tss" and
      eq: "html = result_meta m n @ table_open @ concat (map th hts) @ js ''</tr></thead><tbody>'' @
            concat (map tr tss) @ js ''</tbody></table></div>''"
      by blast
    have h_inert: "\<forall>t \<in> set hts. inert t"
      using list_all2_right [OF hts] escaped_inert by blast
    have row_inert: "\<And>r ts. list_all2 (\<lambda>c t. \<exists>v. element h r c = Inr v \<and> escaped_from v t) cs ts
        \<Longrightarrow> \<forall>t \<in> set ts. inert t"
    proof -
      fix r ts
      assume a: "list_all2 (\<lambda>c t. \<exists>v. element h r c = Inr v \<and> escaped_from v t) cs ts"
      show "\<forall>t \<in> set ts. inert t"
        using list_all2_right [OF a] escaped_inert by blast
    qed
    have t_inert: "\<forall>ts \<in> set tss. \<forall>t \<in> set ts. inert t"
      using list_all2_right [OF tss, of "\<lambda>ts. \<forall>t \<in> set ts. inert t"] row_inert by blast
    show "\<exists>cs rs m n hts tss.
         list_all2 (\<lambda>c t. escaped_from (Json c) t) cs hts \<and>
         list_all2 (\<lambda>r ts. list_all2 (\<lambda>c t. \<exists>v. element h r c = Inr v \<and> escaped_from v t) cs ts)
           rs tss \<and>
         inert m \<and> inert n \<and> (\<forall>t \<in> set hts. inert t) \<and> (\<forall>ts \<in> set tss. \<forall>t \<in> set ts. inert t) \<and>
         outputBox u' =
           result_meta m n @ table_open @ concat (map th hts) @ js ''</tr></thead><tbody>'' @
           concat (map tr tss) @ js ''</tbody></table></div>''"
      using hts tss escaped_inert [OF m] escaped_inert [OF n] h_inert t_inert out eq by blast
  qed
  with escape_text_concat [of s] inert_escape_text [of s] show ?thesis
    by blast
qed

lemmas eval_render =
  renderTable_def field_def or_empty_def template_def length_of_def table_html_def
  escapeHtml_def String_or_empty_def of_option_def iterate_def element_def
  object_prototype_member_def Number_toString_def digits_of.simps escape_text_def
  replace_all_def js_def result_meta_def table_open_def cannot_convert_def Let_def
  followed_by_def escape_unit_def

text \<open>
  A header \<open>a<b\<close> and a cell \<open>x&y>z\<close>.
\<close>

theorem inserted_text_escaped_witness:
  "renderTable sample_host json_markup empty_page =
     (Inr (), snd (renderTable sample_host json_markup empty_page)) \<and>
   outputBox (snd (renderTable sample_host json_markup empty_page)) =
     result_meta (js ''1'') (js ''1'') @ table_open @
     js ''<th>a&lt;b</th></tr></thead><tbody><tr><td>x&amp;y&gt;z</td></tr></tbody></table></div>'' \<and>
   escape_text (js ''x&y>z'') = js ''x&amp;y&gt;z'' \<and> inert (js ''x&amp;y&gt;z'')"
  using inserted_text_escaped [of "js ''x&y>z''" sample_host json_markup empty_page
      "snd (renderTable sample_host json_markup empty_page)"]
  by (simp add: eval_render json_markup_def empty_page_def)

section \<open>Status 204\<close>

lemma renderTable_empty:
  "renderTable h (JObject []) u =
     (Inr (), u\<lparr>lastResult := Some (JObject []), matchedPill := js ''Matched: undefined'',
                returnedPill := js ''Returned: 0'', downloadBtn_disabled := False,
                copyJsonBtn_disabled := False,
                outputBox := result_meta [] (js ''0'') @ table_open @ js ''</tr></thead><tbody>'' @
                             js ''</tbody></table></div>'',
                statusText := js ''Loaded results.''\<rparr>)"
  by (simp add: renderTable_def field_def or_empty_def template_def length_of_def table_html_def
      escapeHtml_def String_or_empty_def of_option_def iterate_def Number_toString_def
      digits_of.simps escape_text_def replace_all_def js_def)

lemma fetchJson_204:
  "net 0 = Inr res \<Longrightarrow> status res = 204 \<Longrightarrow>
   fetchJson h net url = (Inr (JObject []), [Fetch url script_init])"
  by (simp add: fetchJson_def ok_def)

text \<open>
  C10. For a response with status 204, \<open>fetchJson\<close> of static/script.js returns
  an empty object whatever the body and the content type, and a search with a valid
  value succeeds: the last search and the empty object are stored, an empty table is
  shown with \<open>Returned: 0\<close>, and export and copy are enabled.
\<close>

theorem no_content_succeeds:
  assumes "net 0 = Inr res" and "status res = 204"
  shows
    "fetchJson h net url = (Inr (JObject []), [Fetch url script_init]) \<and>
     (trim v \<noteq> [] \<and> well_formed (trim v) \<longrightarrow>
        fst (searchByMachine h net v l u) =
          (showLoading (js ''Searching machine...'') u)
            \<lparr>lastSearch := Some \<lparr>search_type = machine, search_value = trim v\<rparr>,
             lastResult := Some (JObject []), matchedPill := js ''Matched: undefined'',
             returnedPill := js ''Returned: 0'', downloadBtn_disabled := False,
             copyJsonBtn_disabled := False,
             outputBox := result_meta [] (js ''0'') @ table_open @ js ''</tr></thead><tbody>'' @
                          js ''</tbody></table></div>'',
             statusText := js ''Loaded results.''\<rparr> \<and>
        fst (searchByLocation h net v l u) =
          (showLoading (js ''Searching location...'') u)
            \<lparr>lastSearch := Some \<lparr>search_type = location, search_value = trim v\<rparr>,
             lastResult := Some (JObject []), matchedPill := js ''Matched: undefined'',
             returnedPill := js ''Returned: 0'', downloadBtn_disabled := False,
             copyJsonBtn_disabled := False,
             outputBox := result_meta [] (js ''0'') @ table_open @ js ''</tr></thead><tbody>'' @
                          js ''</tbody></table></div>'',
             statusText := js ''Loaded results.''\<rparr>)"
  using assms encode_total [of "trim v"]
  by (auto simp: fetchJson_204 searchByMachine_def searchByLocation_def renderTable_empty Let_def)

text \<open>
  Status 204 with no content type and an empty body.
\<close>

theorem no_content_succeeds_witness:
  "status \<lparr>status = 204, content_type = None, body = Inr []\<rparr> = 204 \<and>
   trim (js ''M-102'') \<noteq> [] \<and> well_formed (trim (js ''M-102'')) \<and>
   fetchJson sample_host (always (Inr \<lparr>status = 204, content_type = None, body = Inr []\<rparr>))
     (js ''/api/search/machine?machine_id=M-102&limit=50'') =
     (Inr (JObject []), [Fetch (js ''/api/search/machine?machine_id=M-102&limit=50'') script_init]) \<and>
   lastResult (fst (searchByMachine sample_host
       (always (Inr \<lparr>status = 204, content_type = None, body = Inr []\<rparr>))
       (js ''M-102'') (js ''50'') (showHint empty_page))) = Some (JObject []) \<and>
   \<not> downloadBtn_disabled (fst (searchByMachine sample_host
       (always (Inr \<lparr>status = 204, content_type = None, body = Inr []\<rparr>))
       (js ''M-102'') (js ''50'') (showHint empty_page))) \<and>
   \<not> copyJsonBtn_disabled (fst (searchByMachine sample_host
       (always (Inr \<lparr>status = 204, content_type = None, body = Inr []\<rparr>))
       (js ''M-102'') (js ''50'') (showHint empty_page)))"
  using no_content_succeeds [of "always (Inr \<lparr>status = 204, content_type = None, body = Inr []\<rparr>)"
      "\<lparr>status = 204, content_type = None, body = Inr []\<rparr>" sample_host
      "js ''/api/search/machine?machine_id=M-102&limit=50''" "js ''M-102''" "js ''50''"
      "showHint empty_page"]
  by (simp add: always_def eval_encode)

section \<open>The rendered table\<close>

text \<open>
  A key that the row does not have, and that no object inherits, gives an empty cell.
\<close>

lemma missing_key_empty_cell:
  "map_of kvs k = None \<Longrightarrow> object_prototype_member k = Undefined \<Longrightarrow>
   row_cells h (JObject kvs) [JString k] = Inr (js ''<td></td>'')"
  by (simp add: element_def escapeHtml_def String_or_empty_def escape_text_def replace_all_def
      followed_by_def js_def)

lemma inherited_key_not_missing:
  "map_of kvs (js ''constructor'') = None \<Longrightarrow>
   element h (JObject kvs) (JString (js ''constructor'')) = Inr (HostFunction (js ''Object''))"
  by (simp add: element_def object_prototype_member_def)

text \<open>
  C9 fails on the code for a column named like a member every object inherits. The
  row has no key \<open>constructor\<close>, and the cell shows the text of the built-in
  function instead of being empty. (The white space inside that text varies between
  engines; it is never empty.)
\<close>

theorem inherited_member_rendered:
  "map_of [(js ''id'', JString (js ''M-102''))] (js ''constructor'') = None \<and>
   outputBox (fst (searchByMachine sample_host (always (Inr (json_response 200 body_inherited)))
                (js ''M-102'') (js ''50'') empty_page)) =
     result_meta (js ''1'') (js ''1'') @ table_open @
     js ''<th>id</th><th>constructor</th></tr></thead><tbody><tr><td>M-102</td><td>function Object() { [native code] }</td></tr></tbody></table></div>''"
  by (simp add: searchByMachine_def eval_fetch eval_render eval_encode eval_show eval_parseInt)

section \<open>The export and copy buttons\<close>

text \<open>
  Every handler keeps the buttons enabled only while a result is held, and the two
  buttons always agree. Where every payload received has counters that can be
  formatted, the buttons are enabled exactly while a result is held. A render that
  completes stores the payload and enables both buttons.
\<close>

lemma only_showError [simp]: "enabled_only_with_result (showError m u) = enabled_only_with_result u"
  by (simp add: enabled_only_with_result_def showError_def toast_def)

lemma only_showLoading [simp]: "enabled_only_with_result (showLoading m u) = enabled_only_with_result u"
  by (simp add: enabled_only_with_result_def showLoading_def)

lemma only_toast [simp]: "enabled_only_with_result (toast t m u) = enabled_only_with_result u"
  by (simp add: enabled_only_with_result_def toast_def)

lemma only_lastSearch [simp]:
  "enabled_only_with_result (u\<lparr>lastSearch := x\<rparr>) = enabled_only_with_result u"
  by (simp add: enabled_only_with_result_def)

lemma only_showHint [simp]: "enabled_only_with_result (showHint u)"
  by (simp add: enabled_only_with_result_def showHint_def)

lemma only_renderTable:
  "renderTable h data u = (r, u') \<Longrightarrow> enabled_only_with_result u \<Longrightarrow> enabled_only_with_result u'"
  by (auto simp: renderTable_def enabled_only_with_result_def Let_def split: sum.splits)

lemma only_searchByMachine:
  "enabled_only_with_result u \<Longrightarrow> enabled_only_with_result (fst (searchByMachine h net v l u))"
  by (auto simp: searchByMachine_def Let_def split: sum.splits prod.splits dest: only_renderTable)

lemma only_searchByLocation:
  "enabled_only_with_result u \<Longrightarrow> enabled_only_with_result (fst (searchByLocation h net v l u))"
  by (auto simp: searchByLocation_def Let_def split: sum.splits prod.splits dest: only_renderTable)

lemma only_downloadAllMatched:
  "enabled_only_with_result u \<Longrightarrow> enabled_only_with_result (fst (downloadAllMatched net u))"
  by (auto simp: downloadAllMatched_def Let_def split: option.splits sum.splits)

lemma only_copyJson:
  "enabled_only_with_result u \<Longrightarrow> enabled_only_with_result (fst (copyJson h a u))"
  by (auto simp: copyJson_def split: option.splits sum.splits)

lemma only_fire: "enabled_only_with_result u \<Longrightarrow> enabled_only_with_result (fire h u e)"
  by (cases e)
     (simp_all add: only_searchByMachine only_searchByLocation only_downloadAllMatched only_copyJson)

lemma buttons_enabled_only_with_result: "enabled_only_with_result (run h page es)"
  unfolding run_def by (induction es rule: rev_induct) (simp_all add: only_fire)

lemma iff_showError [simp]: "enabled_iff_result (showError m u) = enabled_iff_result u"
  by (simp add: enabled_iff_result_def showError_def toast_def)

lemma iff_showLoading [simp]: "enabled_iff_result (showLoading m u) = enabled_iff_result u"
  by (simp add: enabled_iff_result_def showLoading_def)

lemma iff_toast [simp]: "enabled_iff_result (toast t m u) = enabled_iff_result u"
  by (simp add: enabled_iff_result_def toast_def)

lemma iff_lastSearch [simp]: "enabled_iff_result (u\<lparr>lastSearch := x\<rparr>) = enabled_iff_result u"
  by (simp add: enabled_iff_result_def)

lemma iff_showHint [simp]: "enabled_iff_result (showHint u)"
  by (simp add: enabled_iff_result_def showHint_def)

lemma field_null: "(\<exists>e. field data name = Inl e) \<longleftrightarrow> data = JNull"
  by (auto simp: field_def split: json.splits)

lemma field_agree: "field data a = Inr x \<Longrightarrow> field data b = Inl e \<Longrightarrow> False"
  using field_null [of data a] field_null [of data b] by auto

lemma iff_renderTable:
  "renderTable h data u = (r, u') \<Longrightarrow> counters_print data \<Longrightarrow> enabled_iff_result u \<Longrightarrow>
   enabled_iff_result u'"
  by (auto simp: renderTable_def enabled_iff_result_def counters_print_def Let_def
      split: sum.splits dest: field_agree)

lemma fetchJson_answer:
  "fetchJson h net url = (Inr data, fx) \<Longrightarrow> fst (fetchJson h net []) = Inr data"
  using fetchJson_any_url [of h net url "[]"] by simp

lemma iff_searchByMachine:
  "answer_prints h (MachineSearch v l net) \<Longrightarrow> enabled_iff_result u \<Longrightarrow>
   enabled_iff_result (fst (searchByMachine h net v l u))"
  by (auto simp: searchByMachine_def Let_def split: sum.splits prod.splits
      dest!: fetchJson_answer dest: iff_renderTable)

lemma iff_searchByLocation:
  "answer_prints h (LocationSearch v l net) \<Longrightarrow> enabled_iff_result u \<Longrightarrow>
   enabled_iff_result (fst (searchByLocation h net v l u))"
  by (auto simp: searchByLocation_def Let_def split: sum.splits prod.splits
      dest!: fetchJson_answer dest: iff_renderTable)

lemma iff_downloadAllMatched:
  "enabled_iff_result u \<Longrightarrow> enabled_iff_result (fst (downloadAllMatched net u))"
  by (auto simp: downloadAllMatched_def Let_def split: option.splits sum.splits)

lemma iff_copyJson: "enabled_iff_result u \<Longrightarrow> enabled_iff_result (fst (copyJson h a u))"
  by (auto simp: copyJson_def split: option.splits sum.splits)

lemma iff_fire: "answer_prints h e \<Longrightarrow> enabled_iff_result u \<Longrightarrow> enabled_iff_result (fire h u e)"
  by (cases e)
     (simp_all add: iff_searchByMachine iff_searchByLocation iff_downloadAllMatched iff_copyJson)

lemma buttons_enabled_iff_result:
  "\<forall>e \<in> set es. answer_prints h e \<Longrightarrow> enabled_iff_result (run h page es)"
  unfolding run_def by (induction es rule: rev_induct) (simp_all add: iff_fire)

lemma render_enables:
  "renderTable h data u = (Inr (), u') \<Longrightarrow>
   lastResult u' = Some data \<and> \<not> downloadBtn_disabled u' \<and> \<not> copyJsonBtn_disabled u'"
  by (auto simp: renderTable_def Let_def split: sum.splits)

text \<open>
  The payloads of the response contract can be formatted: \<open>matched_rows\<close> a number
  or missing, \<open>rows\<close> an array or missing. So can the empty object returned for
  status 204.
\<close>

lemma contract_counters_print:
  "map_of kvs (js ''matched_rows'') \<in> {None} \<union> range (\<lambda>n. Some (JNumber n)) \<Longrightarrow>
   map_of kvs (js ''rows'') \<in> {None} \<union> range (\<lambda>rs. Some (JArray rs)) \<Longrightarrow>
   counters_print (JObject kvs)"
  by (auto simp: counters_print_def field_def template_def or_empty_def length_of_def)

text \<open>
  C6. In every state reached from the start of the script by searches, resets,
  exports and copies, where the counters of each payload received can be formatted (as
  they can for every payload of the response contract), export and copy are enabled
  if and only if a last result is held. They are disabled, with no result held,
  initially and after a reset, and they are enabled, with the payload held, right
  after every render that completes.
\<close>

theorem buttons_follow_result:
  "((\<forall>e \<in> set es. answer_prints h e) \<longrightarrow>
      (downloadBtn_disabled (run h page es) \<longleftrightarrow> lastResult (run h page es) = None) \<and>
      (copyJsonBtn_disabled (run h page es) \<longleftrightarrow> lastResult (run h page es) = None)) \<and>
   (downloadBtn_disabled (run h page []) \<and> copyJsonBtn_disabled (run h page []) \<and>
    lastResult (run h page []) = None) \<and>
   (downloadBtn_disabled (showHint u) \<and> copyJsonBtn_disabled (showHint u) \<and>
    lastResult (showHint u) = None) \<and>
   (renderTable h data u = (Inr (), u') \<longrightarrow>
      lastResult u' = Some data \<and> \<not> downloadBtn_disabled u' \<and> \<not> copyJsonBtn_disabled u')"
  using buttons_enabled_iff_result [of es h page] render_enables [of h data u u']
  by (auto simp: enabled_iff_result_def run_def showHint_def)

text \<open>
  The scenario of the specification: one search answered with a result, and the same
  search followed by a reset.
\<close>

theorem buttons_follow_result_witness:
  "answer_prints sample_host
      (MachineSearch (js ''M-102'') (js ''50'') (always (Inr (json_response 200 body_result)))) \<and>
   answer_prints sample_host ClearOutput \<and>
   lastResult (run sample_host empty_page
      [MachineSearch (js ''M-102'') (js ''50'') (always (Inr (json_response 200 body_result)))]) =
     Some json_result \<and>
   \<not> downloadBtn_disabled (run sample_host empty_page
      [MachineSearch (js ''M-102'') (js ''50'') (always (Inr (json_response 200 body_result)))]) \<and>
   \<not> copyJsonBtn_disabled (run sample_host empty_page
      [MachineSearch (js ''M-102'') (js ''50'') (always (Inr (json_response 200 body_result)))]) \<and>
   lastResult (run sample_host empty_page
      [MachineSearch (js ''M-102'') (js ''50'') (always (Inr (json_response 200 body_result))),
       ClearOutput]) = None \<and>
   downloadBtn_disabled (run sample_host empty_page
      [MachineSearch (js ''M-102'') (js ''50'') (always (Inr (json_response 200 body_result))),
       ClearOutput]) \<and>
   copyJsonBtn_disabled (run sample_host empty_page
      [MachineSearch (js ''M-102'') (js ''50'') (always (Inr (json_response 200 body_result))),
       ClearOutput])"
proof -
  have a: "answer_prints sample_host
      (MachineSearch (js ''M-102'') (js ''50'') (always (Inr (json_response 200 body_result))))"
    by (simp add: counters_print_def eval_fetch eval_render)
  have r: "lastResult (run sample_host empty_page
      [MachineSearch (js ''M-102'') (js ''50'') (always (Inr (json_response 200 body_result)))]) =
     Some json_result"
    by (simp add: run_def showHint_def searchByMachine_def eval_fetch eval_render eval_encode
        eval_show eval_parseInt)
  have c: "lastResult (run sample_host empty_page
      [MachineSearch (js ''M-102'') (js ''50'') (always (Inr (json_response 200 body_result))),
       ClearOutput]) = None"
    by (simp add: run_def showHint_def)
  show ?thesis
    using a r c
      buttons_follow_result [of
        "[MachineSearch (js ''M-102'') (js ''50'') (always (Inr (json_response 200 body_result)))]"
        sample_host empty_page]
      buttons_follow_result [of
        "[MachineSearch (js ''M-102'') (js ''50'') (always (Inr (json_response 200 body_result))),
          ClearOutput]"
        sample_host empty_page]
    by simp
qed

text \<open>
  The condition on the payloads is needed. A payload whose \<open>matched_rows\<close> is an
  object with a \<open>toString\<close> key of its own lies outside the response contract;
  renderTable stores it, then throws while formatting the counter, and the error is
  shown with export and copy still disabled.
\<close>

lemma result_held_while_disabled:
  "lastResult (run sample_host empty_page
      [MachineSearch (js ''M-102'') (js ''50'') (always (Inr (json_response 200 body_odd_count)))]) =
     Some json_odd_count \<and>
   downloadBtn_disabled (run sample_host empty_page
      [MachineSearch (js ''M-102'') (js ''50'') (always (Inr (json_response 200 body_odd_count)))]) \<and>
   copyJsonBtn_disabled (run sample_host empty_page
      [MachineSearch (js ''M-102'') (js ''50'') (always (Inr (json_response 200 body_odd_count)))]) \<and>
   statusText (run sample_host empty_page
      [MachineSearch (js ''M-102'') (js ''50'') (always (Inr (json_response 200 body_odd_count)))]) =
     js ''Error!''"
  by (simp add: run_def showHint_def searchByMachine_def eval_fetch eval_render eval_encode
      eval_show eval_parseInt)

end
